theory Spec2Isabelle
  imports Main "HOL-Library.Sublist"
begin

section \<open>Data model\<close>

text \<open>
  The persistent store is the SQLite database of \<^verbatim>\<open>database/migrate.ts\<close>. A table is the
  list of its rows in rowid order, a row is a record with one field per column, a nullable
  column is an \<open>option\<close>. Timestamps (\<^verbatim>\<open>datetime('now')\<close>, a text of fixed width whose
  order is the order of time) are the number of seconds they denote; the clock reading
  \<open>now\<close> is a parameter of every operation that asks for it. The \<^verbatim>\<open>users\<close> table and the
  foreign keys into it are not part of the model.
\<close>

type_synonym timestamp = int

record Category =
  c_id :: nat
  c_user_id :: nat
  c_title :: string

record Feed =
  f_id :: nat
  f_user_id :: nat
  f_category_id :: nat
  f_title :: string
  f_feed_url :: string
  f_site_url :: string
  f_description :: "string option"
  f_favicon_url :: "string option"
  f_etag_header :: "string option"
  f_last_modified_header :: "string option"
  f_last_fetched_at :: "timestamp option"
  f_next_fetch_at :: "timestamp option"
  f_error_count :: nat
  f_error_message :: "string option"
  f_disabled :: bool
  f_created_at :: timestamp
  f_updated_at :: timestamp

datatype EntryStatus = Unread | Read | Removed

record Entry =
  e_id :: nat
  e_user_id :: nat
  e_feed_id :: nat
  e_hash :: string
  e_title :: string
  e_url :: string
  e_author :: "string option"
  e_content :: "string option"
  e_summary :: "string option"
  e_published_at :: string
  e_status :: EntryStatus
  e_starred :: bool
  e_reading_time :: nat
  e_created_at :: timestamp
  e_updated_at :: timestamp

record Enclosure =
  enc_id :: nat
  enc_entry_id :: nat
  enc_url :: string
  enc_mime_type :: "string option"
  enc_size :: "int option"

text \<open>
  The three \<open>seq_\<close> fields are the \<^verbatim>\<open>sqlite_sequence\<close> counters of the AUTOINCREMENT keys:
  a new rowid is one more than the largest rowid the table ever held.
\<close>

record database =
  categories :: "Category list"
  feeds :: "Feed list"
  entries :: "Entry list"
  enclosures :: "Enclosure list"
  seq_feeds :: nat
  seq_entries :: nat
  seq_enclosures :: nat

definition next_rowid :: "nat \<Rightarrow> nat list \<Rightarrow> nat" where
  "next_rowid seq ids = Suc (fold max ids seq)"

text \<open>
  The error classes of \<^verbatim>\<open>middlewares/error.middleware.ts\<close>, the error the SQLite driver
  throws when a constraint fails, and a plain \<^verbatim>\<open>Error\<close> (what the feed parser throws).
\<close>

datatype error =
    ValidationError string
  | NotFoundError string
  | ConflictError string
  | SqliteError string
  | Error string

fun message :: "error \<Rightarrow> string" where
  "message (ValidationError m) = m"
| "message (NotFoundError resource) = resource @ '' not found''"
| "message (ConflictError m) = m"
| "message (SqliteError m) = m"
| "message (Error m) = m"

text \<open>
  JavaScript's \<^verbatim>\<open>x || y\<close> on an optional string: \<^verbatim>\<open>undefined\<close>, \<^verbatim>\<open>null\<close> and the empty
  string are falsy.
\<close>

fun truthy :: "string option \<Rightarrow> bool" where
  "truthy None = False"
| "truthy (Some s) = (s \<noteq> [])"

definition or_str :: "string option \<Rightarrow> string option \<Rightarrow> string option" where
  "or_str a b = (if truthy a then a else b)"

definition or_null :: "string option \<Rightarrow> string option" where
  "or_null a = (if truthy a then a else None)"

definition or_default :: "string option \<Rightarrow> string \<Rightarrow> string" where
  "or_default a d = (case a of None \<Rightarrow> d | Some s \<Rightarrow> if s = [] then d else s)"

section \<open>FeedModel\<close>

definition FeedModel_findById :: "database \<Rightarrow> nat \<Rightarrow> Feed option" where
  "FeedModel_findById d i = find (\<lambda>f. f_id f = i) (feeds d)"

definition FeedModel_findByIdAndUserId :: "database \<Rightarrow> nat \<Rightarrow> nat \<Rightarrow> Feed option" where
  "FeedModel_findByIdAndUserId d i userId =
     find (\<lambda>f. f_id f = i \<and> f_user_id f = userId) (feeds d)"

text \<open>\<^verbatim>\<open>if (excludeFeedId)\<close>: an absent id and the id 0 are both falsy.\<close>

definition feedUrlExists :: "database \<Rightarrow> nat \<Rightarrow> string \<Rightarrow> nat option \<Rightarrow> bool" where
  "feedUrlExists d userId feedUrl excludeFeedId =
     (case excludeFeedId of
        Some x \<Rightarrow>
          if x \<noteq> 0
          then list_ex (\<lambda>f. f_user_id f = userId \<and> f_feed_url f = feedUrl \<and> f_id f \<noteq> x) (feeds d)
          else list_ex (\<lambda>f. f_user_id f = userId \<and> f_feed_url f = feedUrl) (feeds d)
      | None \<Rightarrow> list_ex (\<lambda>f. f_user_id f = userId \<and> f_feed_url f = feedUrl) (feeds d))"

text \<open>
  \<^verbatim>\<open>FeedModel.create\<close>. The INSERT fails when the table's UNIQUE(user_id, feed_url) or the
  foreign key on \<^verbatim>\<open>category_id\<close> would be broken; the driver then throws and nothing is
  written. The columns the statement does not name take their defaults.
\<close>

record FeedInsert =
  fi_feed_url :: string
  fi_category_id :: nat
  fi_title :: string
  fi_site_url :: "string option"
  fi_description :: "string option"
  fi_favicon_url :: "string option"

definition FeedModel_create ::
  "database \<Rightarrow> timestamp \<Rightarrow> nat \<Rightarrow> FeedInsert \<Rightarrow> database \<times> (error + Feed option)" where
  "FeedModel_create d now userId input =
     (if list_ex (\<lambda>f. f_user_id f = userId \<and> f_feed_url f = fi_feed_url input) (feeds d)
      then (d, Inl (SqliteError ''UNIQUE constraint failed: feeds.user_id, feeds.feed_url''))
      else if \<not> list_ex (\<lambda>c. c_id c = fi_category_id input) (categories d)
      then (d, Inl (SqliteError ''FOREIGN KEY constraint failed''))
      else
        let rowid = next_rowid (seq_feeds d) (map f_id (feeds d));
            row = \<lparr> f_id = rowid, f_user_id = userId, f_category_id = fi_category_id input,
                    f_title = fi_title input, f_feed_url = fi_feed_url input,
                    f_site_url = or_default (fi_site_url input) [],
                    f_description = or_null (fi_description input),
                    f_favicon_url = or_null (fi_favicon_url input),
                    f_etag_header = None, f_last_modified_header = None,
                    f_last_fetched_at = None, f_next_fetch_at = Some now,
                    f_error_count = 0, f_error_message = None, f_disabled = False,
                    f_created_at = now, f_updated_at = now \<rparr>;
            d' = d\<lparr> feeds := feeds d @ [row], seq_feeds := rowid \<rparr>
        in (d', Inr (FeedModel_findById d' rowid)))"







text \<open>
  \<^verbatim>\<open>FeedModel.update\<close>. The \<^verbatim>\<open>updates\<close> object is the list of its own properties, as
  \<^verbatim>\<open>Object.entries\<close> enumerates them; a property is a column of the feeds table with a
  value of the column's type. TypeScript's types are erased when the code runs, so the
  list may name any column. \<open>assign\<close> is what \<^verbatim>\<open>SET column = ?\<close> does to a row.
\<close>

datatype FeedUpdate =
    Set_id nat
  | Set_user_id nat
  | Set_category_id nat
  | Set_title string
  | Set_feed_url string
  | Set_site_url string
  | Set_description "string option"
  | Set_favicon_url "string option"
  | Set_etag_header "string option"
  | Set_last_modified_header "string option"
  | Set_last_fetched_at "timestamp option"
  | Set_next_fetch_at "timestamp option"
  | Set_error_count nat
  | Set_error_message "string option"
  | Set_disabled bool
  | Set_created_at timestamp
  | Set_updated_at timestamp

fun key :: "FeedUpdate \<Rightarrow> string" where
  "key (Set_id _) = ''id''"
| "key (Set_user_id _) = ''user_id''"
| "key (Set_category_id _) = ''category_id''"
| "key (Set_title _) = ''title''"
| "key (Set_feed_url _) = ''feed_url''"
| "key (Set_site_url _) = ''site_url''"
| "key (Set_description _) = ''description''"
| "key (Set_favicon_url _) = ''favicon_url''"
| "key (Set_etag_header _) = ''etag_header''"
| "key (Set_last_modified_header _) = ''last_modified_header''"
| "key (Set_last_fetched_at _) = ''last_fetched_at''"
| "key (Set_next_fetch_at _) = ''next_fetch_at''"
| "key (Set_error_count _) = ''error_count''"
| "key (Set_error_message _) = ''error_message''"
| "key (Set_disabled _) = ''disabled''"
| "key (Set_created_at _) = ''created_at''"
| "key (Set_updated_at _) = ''updated_at''"

fun assign :: "FeedUpdate \<Rightarrow> Feed \<Rightarrow> Feed" where
  "assign (Set_id v) f = f\<lparr>f_id := v\<rparr>"
| "assign (Set_user_id v) f = f\<lparr>f_user_id := v\<rparr>"
| "assign (Set_category_id v) f = f\<lparr>f_category_id := v\<rparr>"
| "assign (Set_title v) f = f\<lparr>f_title := v\<rparr>"
| "assign (Set_feed_url v) f = f\<lparr>f_feed_url := v\<rparr>"
| "assign (Set_site_url v) f = f\<lparr>f_site_url := v\<rparr>"
| "assign (Set_description v) f = f\<lparr>f_description := v\<rparr>"
| "assign (Set_favicon_url v) f = f\<lparr>f_favicon_url := v\<rparr>"
| "assign (Set_etag_header v) f = f\<lparr>f_etag_header := v\<rparr>"
| "assign (Set_last_modified_header v) f = f\<lparr>f_last_modified_header := v\<rparr>"
| "assign (Set_last_fetched_at v) f = f\<lparr>f_last_fetched_at := v\<rparr>"
| "assign (Set_next_fetch_at v) f = f\<lparr>f_next_fetch_at := v\<rparr>"
| "assign (Set_error_count v) f = f\<lparr>f_error_count := v\<rparr>"
| "assign (Set_error_message v) f = f\<lparr>f_error_message := v\<rparr>"
| "assign (Set_disabled v) f = f\<lparr>f_disabled := v\<rparr>"
| "assign (Set_created_at v) f = f\<lparr>f_created_at := v\<rparr>"
| "assign (Set_updated_at v) f = f\<lparr>f_updated_at := v\<rparr>"

definition allowedFields :: "string list" where
  "allowedFields =
     [''category_id'', ''title'', ''feed_url'', ''site_url'', ''description'',
      ''favicon_url'', ''etag_header'', ''last_modified_header'', ''last_fetched_at'',
      ''next_fetch_at'', ''error_count'', ''error_message'']"

text \<open>
  The UPDATE rewrites the rows with the given id and user id: the SET clauses in order,
  then \<^verbatim>\<open>updated_at\<close>. A new \<^verbatim>\<open>category_id\<close> must exist (foreign key) and a new
  \<^verbatim>\<open>feed_url\<close> must not be another feed of the same user (UNIQUE); otherwise the driver
  throws and no row changes.
\<close>

definition set_row :: "FeedUpdate list \<Rightarrow> timestamp \<Rightarrow> Feed \<Rightarrow> Feed" where
  "set_row setClauses now f = (fold assign setClauses f)\<lparr>f_updated_at := now\<rparr>"

definition FeedModel_update ::
  "database \<Rightarrow> timestamp \<Rightarrow> nat \<Rightarrow> nat \<Rightarrow> FeedUpdate list \<Rightarrow> database \<times> (error + Feed option)" where
  "FeedModel_update d now feedId userId updates =
     (let setClauses = filter (\<lambda>u. key u \<in> set allowedFields) updates in
      if setClauses = [] then (d, Inr (FeedModel_findById d feedId))
      else
        let hit = (\<lambda>f. f_id f = feedId \<and> f_user_id f = userId);
            rows = map (set_row setClauses now) (filter hit (feeds d))
        in
          if ''category_id'' \<in> key ` set setClauses \<and>
             list_ex (\<lambda>r. \<not> list_ex (\<lambda>c. c_id c = f_category_id r) (categories d)) rows
          then (d, Inl (SqliteError ''FOREIGN KEY constraint failed''))
          else if ''feed_url'' \<in> key ` set setClauses \<and>
             list_ex (\<lambda>r. list_ex (\<lambda>g. f_id g \<noteq> f_id r \<and> f_user_id g = f_user_id r \<and>
                                         f_feed_url g = f_feed_url r) (feeds d)) rows
          then (d, Inl (SqliteError ''UNIQUE constraint failed: feeds.user_id, feeds.feed_url''))
          else
            let d' = d\<lparr> feeds := map (\<lambda>f. if hit f then set_row setClauses now f else f) (feeds d) \<rparr>
            in (d', Inr (FeedModel_findById d' feedId)))"

text \<open>
  \<^verbatim>\<open>FeedModel.updateFetchResult\<close>. \<^verbatim>\<open>options.nextFetchMinutes || 60\<close>: an absent
  interval (or NaN) and 0 are falsy and give 60. \<^verbatim>\<open>datetime('now', '+N minutes')\<close> adds
  \<open>60 * N\<close> seconds for the unsigned number \<open>N\<close>; with a negative \<open>N\<close> the modifier reads
  \<^verbatim>\<open>+-N minutes\<close>, which SQLite does not accept, and the value is NULL.
\<close>

record FetchResultOptions =
  etag :: "string option"
  lastModified :: "string option"
  errorMessage :: "string option"
  nextFetchMinutes :: "int option"

definition datetime_plus_minutes :: "timestamp \<Rightarrow> int \<Rightarrow> timestamp option" where
  "datetime_plus_minutes now n = (if 0 \<le> n then Some (now + 60 * n) else None)"

definition interval_or_60 :: "int option \<Rightarrow> int" where
  "interval_or_60 n = (case n of None \<Rightarrow> 60 | Some m \<Rightarrow> if m = 0 then 60 else m)"

definition backoffMinutes :: "int \<Rightarrow> nat \<Rightarrow> int" where
  "backoffMinutes minutes errorCount = min (minutes * 2 ^ (errorCount - 1)) 1440"

definition updateFetchResult ::
  "database \<Rightarrow> timestamp \<Rightarrow> nat \<Rightarrow> bool \<Rightarrow> FetchResultOptions \<Rightarrow> database" where
  "updateFetchResult d now feedId success options =
     (let minutes = interval_or_60 (nextFetchMinutes options) in
      if success then
        d\<lparr> feeds := map (\<lambda>f. if f_id f = feedId
              then f\<lparr> f_last_fetched_at := Some now,
                      f_next_fetch_at := datetime_plus_minutes now minutes,
                      f_etag_header := or_null (etag options),
                      f_last_modified_header := or_null (lastModified options),
                      f_error_count := 0,
                      f_error_message := None,
                      f_updated_at := now \<rparr>
              else f) (feeds d) \<rparr>
      else
        let errorCount = (case FeedModel_findById d feedId of
                            None \<Rightarrow> 0 | Some row \<Rightarrow> f_error_count row) + 1;
            backoff = backoffMinutes minutes errorCount
        in d\<lparr> feeds := map (\<lambda>f. if f_id f = feedId
              then f\<lparr> f_last_fetched_at := Some now,
                      f_next_fetch_at := datetime_plus_minutes now backoff,
                      f_error_count := errorCount,
                      f_error_message := or_null (errorMessage options),
                      f_updated_at := now \<rparr>
              else f) (feeds d) \<rparr>)"

section \<open>CategoryModel\<close>

definition CategoryModel_findById :: "database \<Rightarrow> nat \<Rightarrow> Category option" where
  "CategoryModel_findById d i = find (\<lambda>c. c_id c = i) (categories d)"

text \<open>\<^verbatim>\<open>ORDER BY id LIMIT 1\<close>: the user's category of least id.\<close>

definition getDefaultCategory :: "database \<Rightarrow> nat \<Rightarrow> Category option" where
  "getDefaultCategory d userId =
     (case filter (\<lambda>c. c_user_id c = userId) (categories d) of
        [] \<Rightarrow> None
      | c # cs \<Rightarrow> Some (fold (\<lambda>x m. if c_id x < c_id m then x else m) cs c))"

section \<open>EntryModel\<close>

text \<open>
  \<^verbatim>\<open>crypto.createHash('sha256').update(data).digest('hex')\<close> is the library's; it is the
  parameter \<open>sha256_hex\<close> of everything that hashes. A feed id is a rowid, a natural
  number, and the template literal prints it in decimal.
\<close>

definition digit_char :: "nat \<Rightarrow> char" where
  "digit_char n = char_of (48 + n)"

function string_of_nat :: "nat \<Rightarrow> string" where
  "string_of_nat n =
     (if n < 10 then [digit_char n] else string_of_nat (n div 10) @ [digit_char (n mod 10)])"
  by pat_completeness auto
termination
  by (relation "measure (\<lambda>n. n)") auto

definition generateHash :: "(string \<Rightarrow> string) \<Rightarrow> nat \<Rightarrow> string \<Rightarrow> string \<Rightarrow> string" where
  "generateHash sha256_hex feedId url title =
     (let data = string_of_nat feedId @ '':'' @ url @ '':'' @ title in sha256_hex data)"

record EntryCreateInput =
  in_feed_id :: nat
  in_user_id :: nat
  in_title :: string
  in_url :: string
  in_author :: "string option"
  in_content :: "string option"
  in_summary :: "string option"
  in_published_at :: string
  in_reading_time :: "nat option"

definition EntryModel_findById :: "database \<Rightarrow> nat \<Rightarrow> Entry option" where
  "EntryModel_findById d i = find (\<lambda>e. e_id e = i) (entries d)"

text \<open>
  \<^verbatim>\<open>EntryModel.create\<close>. The INSERT fails on the table's UNIQUE(feed_id, hash) and on the
  foreign key \<^verbatim>\<open>feed_id\<close>; the driver then throws and nothing is written.
\<close>

definition new_entry_row ::
  "(string \<Rightarrow> string) \<Rightarrow> database \<Rightarrow> timestamp \<Rightarrow> EntryCreateInput \<Rightarrow> Entry" where
  "new_entry_row sha256_hex d now input =
     \<lparr> e_id = next_rowid (seq_entries d) (map e_id (entries d)),
       e_user_id = in_user_id input, e_feed_id = in_feed_id input,
       e_hash = generateHash sha256_hex (in_feed_id input) (in_url input) (in_title input),
       e_title = in_title input, e_url = in_url input,
       e_author = or_null (in_author input),
       e_content = or_null (in_content input),
       e_summary = or_null (in_summary input),
       e_published_at = in_published_at input,
       e_status = Unread, e_starred = False,
       e_reading_time = (case in_reading_time input of None \<Rightarrow> 0 | Some n \<Rightarrow> n),
       e_created_at = now, e_updated_at = now \<rparr>"

definition EntryModel_create ::
  "(string \<Rightarrow> string) \<Rightarrow> database \<Rightarrow> timestamp \<Rightarrow> EntryCreateInput
     \<Rightarrow> database \<times> (error + Entry option)" where
  "EntryModel_create sha256_hex d now input =
     (let hash = generateHash sha256_hex (in_feed_id input) (in_url input) (in_title input) in
      if list_ex (\<lambda>e. e_feed_id e = in_feed_id input \<and> e_hash e = hash) (entries d)
      then (d, Inl (SqliteError ''UNIQUE constraint failed: entries.feed_id, entries.hash''))
      else if \<not> list_ex (\<lambda>f. f_id f = in_feed_id input) (feeds d)
      then (d, Inl (SqliteError ''FOREIGN KEY constraint failed''))
      else
        let row = new_entry_row sha256_hex d now input;
            d' = d\<lparr> entries := entries d @ [row], seq_entries := e_id row \<rparr>
        in (d', Inr (EntryModel_findById d' (e_id row))))"

definition existing_entry :: "(string \<Rightarrow> string) \<Rightarrow> database \<Rightarrow> EntryCreateInput \<Rightarrow> Entry option" where
  "existing_entry sha256_hex d input =
     (let hash = generateHash sha256_hex (in_feed_id input) (in_url input) (in_title input)
      in find (\<lambda>e. e_feed_id e = in_feed_id input \<and> e_hash e = hash) (entries d))"

definition createIfNotExists ::
  "(string \<Rightarrow> string) \<Rightarrow> database \<Rightarrow> timestamp \<Rightarrow> EntryCreateInput
     \<Rightarrow> database \<times> (error + Entry option)" where
  "createIfNotExists sha256_hex d now input =
     (case existing_entry sha256_hex d input of
        Some existing \<Rightarrow> (d, Inr None)
      | None \<Rightarrow> EntryModel_create sha256_hex d now input)"

text \<open>
  The same two statements when another connection to the database file commits in
  between them: the SELECT reads \<open>d\<close>, the INSERT runs on \<open>concurrent d\<close>.
\<close>

definition createIfNotExists_racing ::
  "(string \<Rightarrow> string) \<Rightarrow> (database \<Rightarrow> database) \<Rightarrow> database \<Rightarrow> timestamp \<Rightarrow> EntryCreateInput
     \<Rightarrow> database \<times> (error + Entry option)" where
  "createIfNotExists_racing sha256_hex concurrent d now input =
     (case existing_entry sha256_hex d input of
        Some existing \<Rightarrow> (d, Inr None)
      | None \<Rightarrow> EntryModel_create sha256_hex (concurrent d) now input)"

record EnclosureInput =
  ei_url :: string
  ei_mime_type :: "string option"
  ei_size :: "int option"

definition addEnclosure ::
  "database \<Rightarrow> nat \<Rightarrow> EnclosureInput \<Rightarrow> database \<times> (error + Enclosure)" where
  "addEnclosure d entryId enclosure =
     (if \<not> list_ex (\<lambda>e. e_id e = entryId) (entries d)
      then (d, Inl (SqliteError ''FOREIGN KEY constraint failed''))
      else
        let rowid = next_rowid (seq_enclosures d) (map enc_id (enclosures d));
            row = \<lparr> enc_id = rowid, enc_entry_id = entryId, enc_url = ei_url enclosure,
                    enc_mime_type = ei_mime_type enclosure, enc_size = ei_size enclosure \<rparr>
        in (d\<lparr> enclosures := enclosures d @ [row], seq_enclosures := rowid \<rparr>, Inr row))"

section \<open>FeedService\<close>

text \<open>
  What the service takes from outside the repository is gathered in one record: the hash
  and the URL parser of the runtime, the feed parser's HTTP GET (the parsed document, or
  the error it throws on a network failure, an HTTP status or a body it cannot parse), the
  HEAD request of the favicon probe, the clock, and the two settings of
  \<^verbatim>\<open>config/index.ts\<close> (\<open>None\<close> is the NaN that \<^verbatim>\<open>parseInt\<close> gives on a text that is no
  number).
\<close>

record URL =
  url_protocol :: string
  url_origin :: string
  url_hostname :: string

record ItemEnclosure =
  ie_url :: "string option"
  ie_type :: "string option"
  ie_length :: "string option"

record ParsedFeedItem =
  it_title :: "string option"
  it_link :: "string option"
  it_pubDate :: "string option"
  it_isoDate :: "string option"
  it_creator :: "string option"
  it_author :: "string option"
  it_content :: "string option"
  it_contentSnippet :: "string option"
  it_summary :: "string option"
  it_enclosure :: "ItemEnclosure option"

record ParserOutput =
  po_title :: "string option"
  po_description :: "string option"
  po_link :: "string option"
  po_feedUrl :: "string option"
  po_items :: "ParsedFeedItem list"

record ParsedFeed =
  pf_title :: string
  pf_description :: "string option"
  pf_link :: "string option"
  pf_feedUrl :: "string option"
  pf_items :: "ParsedFeedItem list"

record HttpRequest =
  req_url :: string
  req_headers :: "(string \<times> string) list"

record env =
  lib_sha256_hex :: "string \<Rightarrow> string"
  lib_new_URL :: "string \<Rightarrow> URL option"
  net_get_feed :: "HttpRequest \<Rightarrow> error + ParserOutput"
  net_head_ok :: "string \<Rightarrow> bool"
  clock_now :: timestamp
  clock_toISOString :: string
  cfg_feedRefreshIntervalMinutes :: "int option"
  cfg_feedRefreshBatchSize :: int

text \<open>
  \<^verbatim>\<open>fetchFeed\<close>. The headers the module gives its \<^verbatim>\<open>Parser\<close> instance are the headers of
  every request the parser sends; \<^verbatim>\<open>parser.parseURL(url)\<close> takes the URL and nothing
  else. The local \<^verbatim>\<open>headers\<close> object is built from the validators and not used again.
\<close>

record FetchOptions =
  fo_etag :: "string option"
  fo_lastModified :: "string option"

definition parser_headers :: "(string \<times> string) list" where
  "parser_headers =
     [(''User-Agent'', ''Macrofeed/1.0 (RSS Aggregator)''),
      (''Accept'', ''application/rss+xml, application/atom+xml, application/xml, text/xml, application/json'')]"

definition parseURL_request :: "string \<Rightarrow> HttpRequest" where
  "parseURL_request url = \<lparr> req_url = url, req_headers = parser_headers \<rparr>"

definition conditional_headers :: "FetchOptions \<Rightarrow> (string \<times> string) list" where
  "conditional_headers options =
     (case fo_etag options of
        Some v \<Rightarrow> if v \<noteq> [] then [(''If-None-Match'', v)] else []
      | None \<Rightarrow> []) @
     (case fo_lastModified options of
        Some v \<Rightarrow> if v \<noteq> [] then [(''If-Modified-Since'', v)] else []
      | None \<Rightarrow> [])"

definition fetchFeed_request :: "string \<Rightarrow> FetchOptions \<Rightarrow> HttpRequest" where
  "fetchFeed_request url options =
     (let headers = conditional_headers options in parseURL_request url)"

definition fetchFeed :: "env \<Rightarrow> string \<Rightarrow> FetchOptions \<Rightarrow> error + ParsedFeed" where
  "fetchFeed env url options =
     (case net_get_feed env (fetchFeed_request url options) of
        Inl err \<Rightarrow> Inl err
      | Inr feed \<Rightarrow>
          Inr \<lparr> pf_title = or_default (po_title feed) ''Untitled'',
                pf_description = po_description feed,
                pf_link = po_link feed,
                pf_feedUrl = po_feedUrl feed,
                pf_items = po_items feed \<rparr>)"

text \<open>
  \<^verbatim>\<open>estimateReadingTime\<close>. A tag is a \<^verbatim>\<open><\<close> up to the next \<^verbatim>\<open>>\<close>; a \<^verbatim>\<open><\<close> with no
  \<^verbatim>\<open>>\<close> after it stays. Words are the runs between white space (the ASCII white space;
  strings are byte lists here).
\<close>

fun strip_tags :: "bool \<Rightarrow> string \<Rightarrow> string" where
  "strip_tags inside [] = []"
| "strip_tags True (c # cs) = (if c = CHR ''>'' then strip_tags False cs else strip_tags True cs)"
| "strip_tags False (c # cs) =
     (if c = CHR ''<'' \<and> CHR ''>'' \<in> set cs then strip_tags True cs else c # strip_tags False cs)"

definition is_space :: "char \<Rightarrow> bool" where
  "is_space c = (c \<in> set [CHR '' '', CHR 0x09, CHR 0x0A, CHR 0x0B, CHR 0x0C, CHR 0x0D])"

fun count_words :: "bool \<Rightarrow> string \<Rightarrow> nat" where
  "count_words in_word [] = 0"
| "count_words in_word (c # cs) =
     (if is_space c then count_words False cs
      else if in_word then count_words True cs
      else Suc (count_words True cs))"

definition estimateReadingTime :: "string \<Rightarrow> nat" where
  "estimateReadingTime content =
     (let text = strip_tags False content;
          wordCount = count_words False text
      in max 1 ((wordCount + 199) div 200))"

text \<open>
  \<^verbatim>\<open>parseInt(s, 10)\<close>: white space, a sign, then the digits; no digit gives NaN, which
  the database stores as NULL.
\<close>

definition is_digit :: "char \<Rightarrow> bool" where
  "is_digit c = (48 \<le> (of_char c :: nat) \<and> (of_char c :: nat) \<le> 57)"

definition digits_value :: "string \<Rightarrow> nat" where
  "digits_value ds = foldl (\<lambda>acc c. 10 * acc + ((of_char c :: nat) - 48)) 0 ds"

definition parseInt10 :: "string \<Rightarrow> int option" where
  "parseInt10 s =
     (let t = dropWhile is_space s;
          negative = (t \<noteq> [] \<and> hd t = CHR ''-'');
          u = (if t \<noteq> [] \<and> (hd t = CHR ''-'' \<or> hd t = CHR ''+'') then tl t else t);
          ds = takeWhile is_digit u
      in if ds = [] then None
         else Some (if negative then - int (digits_value ds) else int (digits_value ds)))"

text \<open>
  \<^verbatim>\<open>createEntryFromItem\<close>. \<open>item_input\<close> is the object passed to
  \<^verbatim>\<open>createIfNotExists\<close>, for an item whose link is \<open>link\<close>; \<open>item_enclosure\<close> is the
  enclosure to add, when \<^verbatim>\<open>item.enclosure?.url\<close> is truthy.
\<close>

definition item_input :: "env \<Rightarrow> Feed \<Rightarrow> ParsedFeedItem \<Rightarrow> string \<Rightarrow> EntryCreateInput" where
  "item_input env feed item link =
     (let publishedAt = or_default (or_str (it_isoDate item) (it_pubDate item))
                          (clock_toISOString env);
          content = or_default (or_str (or_str (it_content item) (it_summary item))
                                  (it_contentSnippet item)) [];
          readingTime = estimateReadingTime content
      in \<lparr> in_feed_id = f_id feed,
           in_user_id = f_user_id feed,
           in_title = or_default (it_title item) ''Untitled'',
           in_url = link,
           in_author = or_str (it_creator item) (it_author item),
           in_content = Some content,
           in_summary = or_str (it_contentSnippet item) (it_summary item),
           in_published_at = publishedAt,
           in_reading_time = Some readingTime \<rparr>)"

definition item_enclosure :: "ParsedFeedItem \<Rightarrow> EnclosureInput option" where
  "item_enclosure item =
     (case it_enclosure item of
        None \<Rightarrow> None
      | Some enclosure \<Rightarrow>
          if truthy (ie_url enclosure)
          then Some \<lparr> ei_url = or_default (ie_url enclosure) [],
                      ei_mime_type = or_null (ie_type enclosure),
                      ei_size = (if truthy (ie_length enclosure)
                                 then parseInt10 (or_default (ie_length enclosure) [])
                                 else None) \<rparr>
          else None)"

definition add_item_enclosure ::
  "database \<Rightarrow> Entry \<Rightarrow> ParsedFeedItem \<Rightarrow> database \<times> (error + Entry option)" where
  "add_item_enclosure d entry item =
     (case item_enclosure item of
        None \<Rightarrow> (d, Inr (Some entry))
      | Some enclosure \<Rightarrow>
          (case addEnclosure d (e_id entry) enclosure of
             (d2, Inl err) \<Rightarrow> (d2, Inl err)
           | (d2, Inr row) \<Rightarrow> (d2, Inr (Some entry))))"

definition createEntryFromItem ::
  "env \<Rightarrow> database \<Rightarrow> Feed \<Rightarrow> ParsedFeedItem \<Rightarrow> database \<times> (error + Entry option)" where
  "createEntryFromItem env d feed item =
     (if \<not> truthy (it_link item) then (d, Inr None)
      else
        (case createIfNotExists (lib_sha256_hex env) d (clock_now env)
                (item_input env feed item (or_default (it_link item) [])) of
           (d1, Inl err) \<Rightarrow> (d1, Inl err)
         | (d1, Inr None) \<Rightarrow> (d1, Inr None)
         | (d1, Inr (Some entry)) \<Rightarrow> add_item_enclosure d1 entry item))"

text \<open>
  The loop of \<^verbatim>\<open>subscribe\<close> and of \<^verbatim>\<open>refreshFeed\<close> over the items: an item that throws
  is logged and skipped, an item that yields an entry is counted.
\<close>

fun createEntries ::
  "env \<Rightarrow> database \<Rightarrow> Feed \<Rightarrow> ParsedFeedItem list \<Rightarrow> nat \<Rightarrow> database \<times> nat" where
  "createEntries env d feed [] n = (d, n)"
| "createEntries env d feed (item # items) n =
     (case createEntryFromItem env d feed item of
        (d1, Inr (Some entry)) \<Rightarrow> createEntries env d1 feed items (n + 1)
      | (d1, Inr None) \<Rightarrow> createEntries env d1 feed items n
      | (d1, Inl err) \<Rightarrow> createEntries env d1 feed items n)"

text \<open>
  The same loop when another connection commits \<open>concurrent\<close> between the SELECT and the
  INSERT of the first item's \<^verbatim>\<open>createIfNotExists\<close>.
\<close>

definition createEntryFromItem_racing ::
  "env \<Rightarrow> (database \<Rightarrow> database) \<Rightarrow> database \<Rightarrow> Feed \<Rightarrow> ParsedFeedItem
     \<Rightarrow> database \<times> (error + Entry option)" where
  "createEntryFromItem_racing env concurrent d feed item =
     (if \<not> truthy (it_link item) then (d, Inr None)
      else
        (case createIfNotExists_racing (lib_sha256_hex env) concurrent d (clock_now env)
                (item_input env feed item (or_default (it_link item) [])) of
           (d1, Inl err) \<Rightarrow> (d1, Inl err)
         | (d1, Inr None) \<Rightarrow> (d1, Inr None)
         | (d1, Inr (Some entry)) \<Rightarrow> add_item_enclosure d1 entry item))"

fun createEntries_racing ::
  "env \<Rightarrow> (database \<Rightarrow> database) \<Rightarrow> database \<Rightarrow> Feed \<Rightarrow> ParsedFeedItem list \<Rightarrow> nat
     \<Rightarrow> database \<times> nat" where
  "createEntries_racing env concurrent d feed [] n = (d, n)"
| "createEntries_racing env concurrent d feed (item # items) n =
     (case createEntryFromItem_racing env concurrent d feed item of
        (d1, Inr (Some entry)) \<Rightarrow> createEntries env d1 feed items (n + 1)
      | (d1, Inr None) \<Rightarrow> createEntries env d1 feed items n
      | (d1, Inl err) \<Rightarrow> createEntries env d1 feed items n)"

text \<open>\<^verbatim>\<open>fetchFavicon\<close>: a HEAD request that throws counts as not ok.\<close>

definition fetchFavicon :: "env \<Rightarrow> string \<Rightarrow> string option" where
  "fetchFavicon env siteUrl =
     (case lib_new_URL env siteUrl of
        None \<Rightarrow> None
      | Some url \<Rightarrow>
          let google = ''https://www.google.com/s2/favicons?domain='' @ url_hostname url @ ''&sz=64'';
              faviconUrls = [url_origin url @ ''/favicon.ico'', google]
          in (case find (net_head_ok env) faviconUrls of
                Some faviconUrl \<Rightarrow> Some faviconUrl
              | None \<Rightarrow> Some google))"

definition isValidUrl :: "env \<Rightarrow> string \<Rightarrow> bool" where
  "isValidUrl env urlString =
     (case lib_new_URL env urlString of
        None \<Rightarrow> False
      | Some url \<Rightarrow> url_protocol url = ''http:'' \<or> url_protocol url = ''https:'')"

text \<open>
  \<^verbatim>\<open>refreshFeed\<close>. \<open>refresh_try\<close> is the body of its \<^verbatim>\<open>try\<close>: it ends in the result
  or in the error thrown; \<open>refreshFeed\<close> adds the lookup before it and the \<^verbatim>\<open>catch\<close>.
\<close>

record FeedRefreshResult =
  rr_feed :: "Feed option"
  rr_newEntries :: nat
  rr_success :: bool
  rr_error :: "string option"

definition success_options :: "env \<Rightarrow> FetchResultOptions" where
  "success_options env =
     \<lparr> etag = None, lastModified = None, errorMessage = None,
       nextFetchMinutes = cfg_feedRefreshIntervalMinutes env \<rparr>"

definition failure_options :: "env \<Rightarrow> string \<Rightarrow> FetchResultOptions" where
  "failure_options env msg =
     \<lparr> etag = None, lastModified = None, errorMessage = Some msg,
       nextFetchMinutes = cfg_feedRefreshIntervalMinutes env \<rparr>"

definition refresh_fetch :: "env \<Rightarrow> Feed \<Rightarrow> error + ParsedFeed" where
  "refresh_fetch env feed =
     fetchFeed env (f_feed_url feed)
       \<lparr> fo_etag = f_etag_header feed, fo_lastModified = f_last_modified_header feed \<rparr>"

definition refresh_try ::
  "env \<Rightarrow> database \<Rightarrow> Feed \<Rightarrow> database \<times> (error + FeedRefreshResult)" where
  "refresh_try env d feed =
     (case refresh_fetch env feed of
        Inl err \<Rightarrow> (d, Inl err)
      | Inr parsedFeed \<Rightarrow>
          let (d1, newEntries) = createEntries env d feed (pf_items parsedFeed) 0;
              d2 = updateFetchResult d1 (clock_now env) (f_id feed) True (success_options env);
              faviconUrl = (if \<not> truthy (f_favicon_url feed) \<and> truthy (pf_link parsedFeed)
                            then or_null (fetchFavicon env (or_default (pf_link parsedFeed) []))
                            else None)
          in (case faviconUrl of
                None \<Rightarrow>
                  (d2, Inr \<lparr> rr_feed = FeedModel_findById d2 (f_id feed),
                            rr_newEntries = newEntries, rr_success = True, rr_error = None \<rparr>)
              | Some u \<Rightarrow>
                  (case FeedModel_update d2 (clock_now env) (f_id feed) (f_user_id feed)
                          [Set_favicon_url (Some u)] of
                     (d3, Inl err) \<Rightarrow> (d3, Inl err)
                   | (d3, Inr row) \<Rightarrow>
                       (d3, Inr \<lparr> rr_feed = FeedModel_findById d3 (f_id feed),
                                 rr_newEntries = newEntries, rr_success = True,
                                 rr_error = None \<rparr>))))"

definition refreshFeed ::
  "env \<Rightarrow> database \<Rightarrow> nat \<Rightarrow> database \<times> (error + FeedRefreshResult)" where
  "refreshFeed env d feedId =
     (case FeedModel_findById d feedId of
        None \<Rightarrow> (d, Inl (NotFoundError ''Feed''))
      | Some feed \<Rightarrow>
          (case refresh_try env d feed of
             (d1, Inr result) \<Rightarrow> (d1, Inr result)
           | (d1, Inl err) \<Rightarrow>
               let errorMessage = message err;
                   d2 = updateFetchResult d1 (clock_now env) (f_id feed) False
                          (failure_options env errorMessage)
               in (d2, Inr \<lparr> rr_feed = FeedModel_findById d2 (f_id feed),
                             rr_newEntries = 0, rr_success = False,
                             rr_error = Some errorMessage \<rparr>)))"




text \<open>
  \<^verbatim>\<open>updateFeed\<close>. \<^verbatim>\<open>updates.category_id\<close> is the value of that property, if the object
  has it; 0 is falsy.
\<close>

fun updates_category_id :: "FeedUpdate list \<Rightarrow> nat option" where
  "updates_category_id [] = None"
| "updates_category_id (Set_category_id c # us) = Some c"
| "updates_category_id (u # us) = updates_category_id us"

definition updateFeed ::
  "database \<Rightarrow> timestamp \<Rightarrow> nat \<Rightarrow> nat \<Rightarrow> FeedUpdate list \<Rightarrow> database \<times> (error + Feed option)" where
  "updateFeed d now feedId userId updates =
     (case FeedModel_findByIdAndUserId d feedId userId of
        None \<Rightarrow> (d, Inl (NotFoundError ''Feed''))
      | Some feed \<Rightarrow>
          let category_missing =
                (case updates_category_id updates of
                   None \<Rightarrow> False
                 | Some c \<Rightarrow>
                     c \<noteq> 0 \<and>
                     (case CategoryModel_findById d c of
                        None \<Rightarrow> True
                      | Some category \<Rightarrow> c_user_id category \<noteq> userId))
          in if category_missing then (d, Inl (NotFoundError ''Category''))
             else FeedModel_update d now feedId userId updates)"

text \<open>\<^verbatim>\<open>subscribe\<close>.\<close>

record FeedCreateInput =
  fc_feed_url :: string
  fc_category_id :: "nat option"
  fc_title :: "string option"

record FeedSubscribeResult =
  sr_feed :: "Feed option"
  sr_entriesCreated :: nat

definition resolve_category :: "database \<Rightarrow> nat \<Rightarrow> nat option \<Rightarrow> error + nat" where
  "resolve_category d userId category_id =
     (if category_id = None \<or> category_id = Some 0
      then (case getDefaultCategory d userId of
              None \<Rightarrow> Inl (ValidationError ''No category available'')
            | Some defaultCategory \<Rightarrow> Inr (c_id defaultCategory))
      else (case CategoryModel_findById d (case category_id of Some c \<Rightarrow> c | None \<Rightarrow> 0) of
              None \<Rightarrow> Inl (NotFoundError ''Category'')
            | Some category \<Rightarrow>
                if c_user_id category \<noteq> userId then Inl (NotFoundError ''Category'')
                else Inr (c_id category)))"

definition subscribe_feed_row ::
  "FeedCreateInput \<Rightarrow> nat \<Rightarrow> ParsedFeed \<Rightarrow> string option \<Rightarrow> FeedInsert" where
  "subscribe_feed_row input categoryId parsedFeed faviconUrl =
     \<lparr> fi_feed_url = fc_feed_url input,
       fi_category_id = categoryId,
       fi_title = or_default (or_str (fc_title input) (Some (pf_title parsedFeed))) ''Untitled Feed'',
       fi_site_url = pf_link parsedFeed,
       fi_description = pf_description parsedFeed,
       fi_favicon_url = or_null faviconUrl \<rparr>"

definition subscribe ::
  "env \<Rightarrow> database \<Rightarrow> nat \<Rightarrow> FeedCreateInput \<Rightarrow> database \<times> (error + FeedSubscribeResult)" where
  "subscribe env d userId input =
     (if fc_feed_url input = [] \<or> \<not> isValidUrl env (fc_feed_url input)
      then (d, Inl (ValidationError ''Invalid feed URL''))
      else if feedUrlExists d userId (fc_feed_url input) None
      then (d, Inl (ConflictError ''Already subscribed to this feed''))
      else
        (case resolve_category d userId (fc_category_id input) of
           Inl err \<Rightarrow> (d, Inl err)
         | Inr categoryId \<Rightarrow>
             (case fetchFeed env (fc_feed_url input) \<lparr> fo_etag = None, fo_lastModified = None \<rparr> of
                Inl err \<Rightarrow> (d, Inl (ValidationError (''Failed to fetch feed: '' @ message err)))
              | Inr parsedFeed \<Rightarrow>
                  let faviconUrl = fetchFavicon env
                        (or_default (pf_link parsedFeed) (fc_feed_url input))
                  in (case FeedModel_create d (clock_now env) userId
                             (subscribe_feed_row input categoryId parsedFeed faviconUrl) of
                        (d1, Inl err) \<Rightarrow> (d1, Inl err)
                      | (d1, Inr None) \<Rightarrow>
                          (d1, Inl (Error ''Cannot read properties of null (reading 'id')''))
                      | (d1, Inr (Some feed)) \<Rightarrow>
                          let (d2, entriesCreated) =
                                createEntries env d1 feed (take 50 (pf_items parsedFeed)) 0;
                              d3 = updateFetchResult d2 (clock_now env) (f_id feed) True
                                     (success_options env)
                          in (d3, Inr \<lparr> sr_feed = FeedModel_findById d3 (f_id feed),
                                        sr_entriesCreated = entriesCreated \<rparr>)))))"

section \<open>Notions used in the properties\<close>

text \<open>
  The fingerprint \<^verbatim>\<open>createEntryFromItem\<close> computes for an item of a feed, and the test
  whether the store holds an entry with a feed id and a fingerprint (the SELECT of
  \<^verbatim>\<open>createIfNotExists\<close>).
\<close>

definition item_hash :: "env \<Rightarrow> nat \<Rightarrow> ParsedFeedItem \<Rightarrow> string" where
  "item_hash env feedId item =
     generateHash (lib_sha256_hex env) feedId
       (or_default (it_link item) []) (or_default (it_title item) ''Untitled'')"

definition has_entry :: "database \<Rightarrow> nat \<Rightarrow> string \<Rightarrow> bool" where
  "has_entry d feedId hash = list_ex (\<lambda>e. e_feed_id e = feedId \<and> e_hash e = hash) (entries d)"

text \<open>
  The state in which a fetch leaves the columns of the feed's row that
  \<^verbatim>\<open>updateFetchResult\<close> writes: after a success, and after a failure with the message
  \<open>msg\<close> when the row read before was \<open>feed\<close>.
\<close>

definition after_success :: "env \<Rightarrow> Feed \<Rightarrow> bool" where
  "after_success env row =
     (f_last_fetched_at row = Some (clock_now env)
      \<and> f_next_fetch_at row =
          datetime_plus_minutes (clock_now env) (interval_or_60 (cfg_feedRefreshIntervalMinutes env))
      \<and> f_etag_header row = None
      \<and> f_last_modified_header row = None
      \<and> f_error_count row = 0
      \<and> f_error_message row = None)"



section \<open>Sample data\<close>

text \<open>
  A store with one category and one feed that has failed twice and holds validators, and
  the options of a failed fetch; the theorems below are evaluated on them.
\<close>

definition sample_feed :: Feed where
  "sample_feed =
     \<lparr> f_id = 1, f_user_id = 1, f_category_id = 1, f_title = ''A'',
       f_feed_url = ''https://a.example/feed'', f_site_url = ''https://a.example'',
       f_description = None, f_favicon_url = Some ''https://a.example/favicon.ico'',
       f_etag_header = Some ''abc'',
       f_last_modified_header = Some ''Mon, 01 Jan 2024 00:00:00 GMT'',
       f_last_fetched_at = None, f_next_fetch_at = None,
       f_error_count = 2, f_error_message = Some ''timeout'', f_disabled = False,
       f_created_at = 0, f_updated_at = 0 \<rparr>"

definition sample_db :: database where
  "sample_db =
     \<lparr> categories = [\<lparr> c_id = 1, c_user_id = 1, c_title = ''News'' \<rparr>],
       feeds = [sample_feed], entries = [], enclosures = [],
       seq_feeds = 1, seq_entries = 0, seq_enclosures = 0 \<rparr>"

definition sample_failure :: "string \<Rightarrow> int \<Rightarrow> FetchResultOptions" where
  "sample_failure msg n =
     \<lparr> etag = None, lastModified = None, errorMessage = Some msg, nextFetchMinutes = Some n \<rparr>"

text \<open>
  Two inputs for the same article of that feed (same URL and title, another summary), a
  parsed item of it, an outside world in which the hash is the identity, every URL parses
  to the site \<^verbatim>\<open>a.example\<close> and the feed document holds that one item, and another
  connection that inserts the article.
\<close>

definition sample_input_a :: EntryCreateInput where
  "sample_input_a =
     \<lparr> in_feed_id = 1, in_user_id = 1, in_title = ''Hello'', in_url = ''https://a.example/p1'',
       in_author = None, in_content = None, in_summary = Some ''first summary'',
       in_published_at = ''2024-01-01T00:00:00.000Z'', in_reading_time = Some 1 \<rparr>"

definition sample_input_b :: EntryCreateInput where
  "sample_input_b =
     \<lparr> in_feed_id = 1, in_user_id = 1, in_title = ''Hello'', in_url = ''https://a.example/p1'',
       in_author = Some ''B'', in_content = Some ''other content'',
       in_summary = Some ''second summary'',
       in_published_at = ''2024-01-02T00:00:00.000Z'', in_reading_time = Some 3 \<rparr>"

definition sample_item :: ParsedFeedItem where
  "sample_item =
     \<lparr> it_title = Some ''Hello'', it_link = Some ''https://a.example/p1'',
       it_pubDate = None, it_isoDate = Some ''2024-01-01T00:00:00.000Z'',
       it_creator = None, it_author = None, it_content = None,
       it_contentSnippet = None, it_summary = Some ''first summary'',
       it_enclosure = None \<rparr>"

definition sample_output :: ParserOutput where
  "sample_output =
     \<lparr> po_title = Some ''A'', po_description = None, po_link = Some ''https://a.example'',
       po_feedUrl = None, po_items = [sample_item] \<rparr>"

definition sample_env :: env where
  "sample_env =
     \<lparr> lib_sha256_hex = (\<lambda>s. s),
       lib_new_URL = (\<lambda>s. Some \<lparr> url_protocol = ''https:'', url_origin = ''https://a.example'',
                                  url_hostname = ''a.example'' \<rparr>),
       net_get_feed = (\<lambda>request. Inr sample_output),
       net_head_ok = (\<lambda>u. False),
       clock_now = 1000,
       clock_toISOString = ''2024-01-03T00:00:00.000Z'',
       cfg_feedRefreshIntervalMinutes = Some 60,
       cfg_feedRefreshBatchSize = 10 \<rparr>"

definition sample_concurrent :: "database \<Rightarrow> database" where
  "sample_concurrent d = fst (createIfNotExists (\<lambda>s. s) d 999 sample_input_a)"



definition sample_envs :: "nat \<Rightarrow> env" where
  "sample_envs i =
     (if i = 2 then sample_env\<lparr> net_get_feed := (\<lambda>request. Inl (Error ''Status code 500'')) \<rparr>
      else sample_env)"


text \<open>
  A subscription of user 1 to a third feed, and outside worlds whose feed document holds
  given items: 200 articles with different links, 200 items without a link, 200 copies of
  one article.
\<close>

definition sample_subscribe :: FeedCreateInput where
  "sample_subscribe =
     \<lparr> fc_feed_url = ''https://c.example/feed'', fc_category_id = None, fc_title = None \<rparr>"

definition sample_env_items :: "ParsedFeedItem list \<Rightarrow> env" where
  "sample_env_items items =
     sample_env\<lparr> net_get_feed := (\<lambda>request. Inr (sample_output\<lparr> po_items := items \<rparr>)) \<rparr>"

definition sample_article :: "nat \<Rightarrow> ParsedFeedItem" where
  "sample_article i =
     sample_item\<lparr> it_link := Some (''https://a.example/p'' @ replicate i (CHR ''x'')) \<rparr>"

definition sample_articles :: "ParsedFeedItem list" where
  "sample_articles = map sample_article [0..<200]"

definition sample_without_links :: "ParsedFeedItem list" where
  "sample_without_links = replicate 200 (sample_item\<lparr> it_link := None \<rparr>)"

definition sample_copies :: "ParsedFeedItem list" where
  "sample_copies = replicate 200 sample_item"

section \<open>Lookups in a rewritten table\<close>

lemma find_map_same_id:
  assumes "\<And>f. f_id (g f) = f_id f"
  shows "find (\<lambda>f. f_id f = i) (map g fs) = map_option g (find (\<lambda>f. f_id f = i) fs)"
  using assms by (induction fs) auto

lemma find_None_list_ex: "(find P xs = None) = (\<not> list_ex P xs)"
  by (induction xs) auto

lemma find_append_fresh:
  assumes "\<forall>x \<in> set xs. \<not> P x" "P y"
  shows "find P (xs @ [y]) = Some y"
  using assms by (induction xs) auto

lemma fold_max_ge: "seq \<le> fold max ids seq \<and> (\<forall>i \<in> set ids. i \<le> fold max ids (seq::nat))"
proof (induction ids arbitrary: seq)
  case Nil
  then show ?case by simp
next
  case (Cons a ids)
  have "max a seq \<le> fold max ids (max a seq)" using Cons.IH by blast
  then show ?case using Cons.IH[of "max a seq"] by auto
qed

lemma next_rowid_fresh: "next_rowid seq ids \<notin> set ids"
  using fold_max_ge[of seq ids] by (auto simp: next_rowid_def)

lemma FeedModel_findById_Some:
  "FeedModel_findById d i = Some f \<Longrightarrow> f_id f = i \<and> f \<in> set (feeds d)"
  by (auto simp: FeedModel_findById_def find_Some_iff)

section \<open>Backoff after a failed fetch\<close>

lemma backoffMinutes_le_cap: "backoffMinutes b k \<le> 1440"
  by (simp add: backoffMinutes_def)

lemma backoffMinutes_mono:
  assumes "0 \<le> b" shows "backoffMinutes b k \<le> backoffMinutes b (k + j)"
proof -
  have "(2::int) ^ (k - 1) \<le> 2 ^ (k + j - 1)"
    by (rule power_increasing) auto
  then have "b * 2 ^ (k - 1) \<le> b * 2 ^ (k + j - 1)"
    using assms by (rule mult_left_mono)
  then show ?thesis
    by (simp add: backoffMinutes_def min_le_iff_disj)
qed

lemma backoffMinutes_nonneg: "0 \<le> b \<Longrightarrow> 0 \<le> backoffMinutes b k"
  by (simp add: backoffMinutes_def)

text \<open>
  C1, as the code has it. A failed fetch of an existing feed, with a configured interval
  \<open>n \<ge> 0\<close>: the error count grows by one; the next fetch is \<open>min (b * 2 ^ (c - 1)) 1440\<close>
  minutes after \<open>now\<close>, where \<open>c\<close> is the new error count and the base \<open>b\<close> is \<open>n\<close>, or 60
  when \<open>n\<close> is 0; the error message is the failure text, or NULL when the text is empty;
  \<^verbatim>\<open>last_fetched_at\<close> is \<open>now\<close>. The delay never exceeds 1440 minutes and does not
  decrease when the error count grows.
\<close>

theorem updateFetchResult_failure_backoff:
  assumes found: "FeedModel_findById d feedId = Some f"
      and interval: "nextFetchMinutes options = Some n" "0 \<le> n"
      and failure: "errorMessage options = Some msg"
  shows "\<exists>f'. FeedModel_findById (updateFetchResult d now feedId False options) feedId = Some f'
           \<and> f_error_count f' = f_error_count f + 1
           \<and> f_next_fetch_at f' =
               Some (now + 60 * min ((if n = 0 then 60 else n) * 2 ^ (f_error_count f' - 1)) 1440)
           \<and> f_error_message f' = (if msg = [] then None else Some msg)
           \<and> f_last_fetched_at f' = Some now
           \<and> backoffMinutes (if n = 0 then 60 else n) k
               \<le> backoffMinutes (if n = 0 then 60 else n) (k + j)
           \<and> backoffMinutes (if n = 0 then 60 else n) k \<le> 1440"
proof -
  let ?b = "if n = 0 then 60 else n"
  have b: "interval_or_60 (nextFetchMinutes options) = ?b" "0 \<le> ?b"
    using interval by (auto simp: interval_or_60_def)
  have "FeedModel_findById (updateFetchResult d now feedId False options) feedId
        = Some (f\<lparr> f_last_fetched_at := Some now,
                  f_next_fetch_at := datetime_plus_minutes now (backoffMinutes ?b (f_error_count f + 1)),
                  f_error_count := f_error_count f + 1,
                  f_error_message := or_null (errorMessage options),
                  f_updated_at := now \<rparr>)"
    using found b(1) FeedModel_findById_Some[OF found]
    by (simp add: updateFetchResult_def FeedModel_findById_def Let_def find_map_same_id
             del: One_nat_def)
  moreover have "datetime_plus_minutes now (backoffMinutes ?b (f_error_count f + 1))
        = Some (now + 60 * min (?b * 2 ^ (f_error_count f + 1 - 1)) 1440)"
    using backoffMinutes_nonneg[OF b(2)]
    by (simp add: datetime_plus_minutes_def) (simp add: backoffMinutes_def)
  moreover have "or_null (errorMessage options) = (if msg = [] then None else Some msg)"
    using failure by (simp add: or_null_def)
  ultimately show ?thesis
    using backoffMinutes_mono[OF b(2)] backoffMinutes_le_cap by simp
qed

text \<open>
  The scenario of the specification: two earlier failures, base interval 60; the third
  failure sets the error count to 3 and the next fetch 240 minutes after \<open>now\<close>.
\<close>

theorem updateFetchResult_failure_backoff_witness:
  "FeedModel_findById sample_db 1 = Some sample_feed
   \<and> (\<exists>f'. FeedModel_findById
              (updateFetchResult sample_db 1000 1 False (sample_failure ''Status code 500'' 60)) 1
              = Some f'
         \<and> f_error_count f' = 3
         \<and> f_next_fetch_at f' = Some (1000 + 60 * 240)
         \<and> f_error_message f' = Some ''Status code 500''
         \<and> f_last_fetched_at f' = Some 1000)"
proof -
  have found: "FeedModel_findById sample_db 1 = Some sample_feed"
    by (simp add: FeedModel_findById_def sample_db_def sample_feed_def)
  have opts: "nextFetchMinutes (sample_failure ''Status code 500'' 60) = Some 60"
             "errorMessage (sample_failure ''Status code 500'' 60) = Some ''Status code 500''"
    by (simp_all add: sample_failure_def)
  have count: "f_error_count sample_feed = 2"
    by (simp add: sample_feed_def)
  obtain f' where f':
      "FeedModel_findById
         (updateFetchResult sample_db 1000 1 False (sample_failure ''Status code 500'' 60)) 1 = Some f'"
      "f_error_count f' = f_error_count sample_feed + 1"
      "f_next_fetch_at f' = Some (1000 + 60 * min ((if (60::int) = 0 then 60 else 60) * 2 ^ (f_error_count f' - 1)) 1440)"
      "f_error_message f' = (if ''Status code 500'' = [] then None else Some ''Status code 500'')"
      "f_last_fetched_at f' = Some 1000"
    using updateFetchResult_failure_backoff[OF found opts(1) _ opts(2), of 1000 1 1]
    by auto
  have "f_error_count f' = 3" using f'(2) count by simp
  moreover from this have "f_next_fetch_at f' = Some (1000 + 60 * 240)"
    using f'(3) by simp
  ultimately show ?thesis using found f'(1,4,5) by simp
qed

text \<open>
  C1 as stated fails where the code's guards apply: with a configured interval of 0 the
  base is 60, so the third failure schedules the next fetch 240 minutes after \<open>now\<close>, not
  \<open>min (0 * 2 ^ 2) 1440 = 0\<close> minutes; an empty failure text is stored as NULL; and with a
  negative interval the delay decreases as the error count grows.
\<close>

theorem updateFetchResult_failure_backoff_counterexample:
  "map f_next_fetch_at (feeds (updateFetchResult sample_db 1000 1 False (sample_failure [] 0)))
     = [Some (1000 + 60 * 240)]
   \<and> Some (1000 + 60 * 240) \<noteq> Some ((1000::int) + 60 * min (0 * 2 ^ (3 - 1)) 1440)
   \<and> map f_error_count (feeds (updateFetchResult sample_db 1000 1 False (sample_failure [] 0))) = [3]
   \<and> map f_error_message (feeds (updateFetchResult sample_db 1000 1 False (sample_failure [] 0)))
     = [None]
   \<and> backoffMinutes (- 5) 2 < backoffMinutes (- 5) 1"
  by (simp add: updateFetchResult_def sample_db_def sample_feed_def sample_failure_def
                FeedModel_findById_def interval_or_60_def backoffMinutes_def
                datetime_plus_minutes_def or_null_def Let_def)

section \<open>The fingerprint and the existence check\<close>

lemma existing_entry_None:
  "(existing_entry sha d input = None) =
   (\<not> list_ex (\<lambda>e. e_feed_id e = in_feed_id input \<and>
                     e_hash e = generateHash sha (in_feed_id input) (in_url input) (in_title input))
        (entries d))"
  by (simp add: existing_entry_def find_None_list_ex)

lemma EntryModel_create_ok:
  assumes "existing_entry sha d input = None"
      and "list_ex (\<lambda>f. f_id f = in_feed_id input) (feeds d)"
  shows "EntryModel_create sha d now input =
           (d\<lparr> entries := entries d @ [new_entry_row sha d now input],
               seq_entries := e_id (new_entry_row sha d now input) \<rparr>,
            Inr (Some (new_entry_row sha d now input)))"
proof -
  have fresh: "\<forall>e \<in> set (entries d). e_id e \<noteq> next_rowid (seq_entries d) (map e_id (entries d))"
    using next_rowid_fresh[of "seq_entries d" "map e_id (entries d)"] by force
  have "find (\<lambda>e. e_id e = e_id (new_entry_row sha d now input))
          (entries d @ [new_entry_row sha d now input]) = Some (new_entry_row sha d now input)"
    by (rule find_append_fresh) (use fresh in \<open>auto simp: new_entry_row_def\<close>)
  then show ?thesis
    using assms
    by (simp add: EntryModel_create_def existing_entry_None Let_def EntryModel_findById_def)
qed

lemma EntryModel_create_unique:
  assumes "existing_entry sha d input \<noteq> None"
  shows "EntryModel_create sha d now input =
           (d, Inl (SqliteError ''UNIQUE constraint failed: entries.feed_id, entries.hash''))"
  using assms by (simp add: EntryModel_create_def existing_entry_None Let_def)

lemma EntryModel_create_fk:
  assumes "existing_entry sha d input = None"
      and "\<not> list_ex (\<lambda>f. f_id f = in_feed_id input) (feeds d)"
  shows "EntryModel_create sha d now input = (d, Inl (SqliteError ''FOREIGN KEY constraint failed''))"
  using assms by (simp add: EntryModel_create_def existing_entry_None Let_def)

lemma createIfNotExists_existing:
  "existing_entry sha d input \<noteq> None \<Longrightarrow> createIfNotExists sha d now input = (d, Inr None)"
  by (auto simp: createIfNotExists_def)

lemma createIfNotExists_null_iff:
  "(snd (createIfNotExists sha d now input) = Inr None) = (existing_entry sha d input \<noteq> None)"
proof (cases "existing_entry sha d input")
  case None
  show ?thesis
  proof (cases "list_ex (\<lambda>f. f_id f = in_feed_id input) (feeds d)")
    case True
    then show ?thesis using None EntryModel_create_ok[OF None True, of now]
      by (simp add: createIfNotExists_def)
  next
    case False
    then show ?thesis using None EntryModel_create_fk[OF None False, of now]
      by (simp add: createIfNotExists_def)
  qed
next
  case (Some e)
  then show ?thesis by (simp add: createIfNotExists_def)
qed

lemma existing_entry_same_key:
  assumes "in_feed_id b = in_feed_id a" "in_url b = in_url a" "in_title b = in_title a"
  shows "existing_entry sha d b = existing_entry sha d a"
  using assms by (simp add: existing_entry_def)

lemma existing_after_create:
  "existing_entry sha (d\<lparr> entries := entries d @ [new_entry_row sha d now input], seq_entries := s \<rparr>) input \<noteq> None"
  by (simp add: existing_entry_None new_entry_row_def)

lemma createIfNotExists_then_existing:
  assumes "\<not> isl (snd (createIfNotExists sha d now input))"
  shows "existing_entry sha (fst (createIfNotExists sha d now input)) input \<noteq> None"
proof (cases "existing_entry sha d input")
  case None
  show ?thesis
  proof (cases "list_ex (\<lambda>f. f_id f = in_feed_id input) (feeds d)")
    case True
    show ?thesis
      using existing_after_create
      by (simp add: createIfNotExists_def None EntryModel_create_ok[OF None True])
  next
    case False
    then show ?thesis using assms None EntryModel_create_fk[OF None False, of now]
      by (simp add: createIfNotExists_def)
  qed
next
  case (Some e)
  then show ?thesis by (simp add: createIfNotExists_def)
qed

text \<open>
  C2. The fingerprint is the SHA-256 hex digest of \<^verbatim>\<open>feedId:url:title\<close>; two inputs with
  the same feed id, URL and title have the same fingerprint, whatever their other fields;
  \<^verbatim>\<open>createIfNotExists\<close> returns null exactly when the store holds an entry with the
  input's feed id and fingerprint; and after a call that did not throw, a second input
  with the same feed id, URL and title is rejected: null, and the store unchanged.
\<close>

theorem fingerprint_dedup_key:
  "generateHash sha feedId url title = sha (string_of_nat feedId @ '':'' @ url @ '':'' @ title)
   \<and> (in_feed_id b = in_feed_id a \<and> in_url b = in_url a \<and> in_title b = in_title a
        \<longrightarrow> generateHash sha (in_feed_id b) (in_url b) (in_title b)
            = generateHash sha (in_feed_id a) (in_url a) (in_title a))
   \<and> ((snd (createIfNotExists sha d now a) = Inr None)
        = (\<exists>e \<in> set (entries d). e_feed_id e = in_feed_id a
              \<and> e_hash e = generateHash sha (in_feed_id a) (in_url a) (in_title a)))
   \<and> (in_feed_id b = in_feed_id a \<and> in_url b = in_url a \<and> in_title b = in_title a
        \<and> \<not> isl (snd (createIfNotExists sha d now a))
        \<longrightarrow> createIfNotExists sha (fst (createIfNotExists sha d now a)) now' b
            = (fst (createIfNotExists sha d now a), Inr None))"
proof -
  have 1: "generateHash sha feedId url title = sha (string_of_nat feedId @ '':'' @ url @ '':'' @ title)"
    by (simp add: generateHash_def del: string_of_nat.simps)
  have 3: "(snd (createIfNotExists sha d now a) = Inr None)
        = (\<exists>e \<in> set (entries d). e_feed_id e = in_feed_id a
              \<and> e_hash e = generateHash sha (in_feed_id a) (in_url a) (in_title a))"
    by (simp add: createIfNotExists_null_iff existing_entry_None list_ex_iff)
  have 4: "createIfNotExists sha (fst (createIfNotExists sha d now a)) now' b
            = (fst (createIfNotExists sha d now a), Inr None)"
    if "in_feed_id b = in_feed_id a" "in_url b = in_url a" "in_title b = in_title a"
       "\<not> isl (snd (createIfNotExists sha d now a))"
    using createIfNotExists_then_existing[OF that(4)] existing_entry_same_key[OF that(1-3)]
    by (simp add: createIfNotExists_existing)
  show ?thesis using 1 3 4 by simp
qed

lemma sample_input_a_fresh: "existing_entry (\<lambda>s. s) sample_db sample_input_a = None"
  by (simp add: existing_entry_def sample_db_def)

lemma sample_input_a_feed: "list_ex (\<lambda>f. f_id f = in_feed_id sample_input_a) (feeds sample_db)"
  by (simp add: sample_db_def sample_feed_def sample_input_a_def)

lemma sample_input_a_stored: "\<not> isl (snd (createIfNotExists (\<lambda>s. s) sample_db now sample_input_a))"
  by (simp add: createIfNotExists_def sample_input_a_fresh
                EntryModel_create_ok[OF sample_input_a_fresh sample_input_a_feed])

lemma string_of_nat_1: "string_of_nat (Suc 0) = ''1''"
  by code_simp

text \<open>
  The scenario of the specification: the article \<^verbatim>\<open>https://a.example/p1\<close>, \<^verbatim>\<open>Hello\<close>
  is stored once; seen again with another summary it is rejected.
\<close>

theorem fingerprint_dedup_key_witness:
  "in_feed_id sample_input_b = in_feed_id sample_input_a
   \<and> in_url sample_input_b = in_url sample_input_a
   \<and> in_title sample_input_b = in_title sample_input_a
   \<and> \<not> isl (snd (createIfNotExists (\<lambda>s. s) sample_db 1000 sample_input_a))
   \<and> generateHash (\<lambda>s. s) 1 ''https://a.example/p1'' ''Hello'' = ''1:https://a.example/p1:Hello''
   \<and> createIfNotExists (\<lambda>s. s) (fst (createIfNotExists (\<lambda>s. s) sample_db 1000 sample_input_a)) 2000
         sample_input_b
       = (fst (createIfNotExists (\<lambda>s. s) sample_db 1000 sample_input_a), Inr None)"
proof -
  have same: "in_feed_id sample_input_b = in_feed_id sample_input_a"
             "in_url sample_input_b = in_url sample_input_a"
             "in_title sample_input_b = in_title sample_input_a"
    by (simp_all add: sample_input_a_def sample_input_b_def)
  show ?thesis
    using fingerprint_dedup_key[where sha = "\<lambda>s. s" and feedId = 1
            and url = "''https://a.example/p1''" and title = "''Hello''"
            and a = sample_input_a and b = sample_input_b and d = sample_db
            and now = 1000 and now' = 2000]
          same sample_input_a_stored[of 1000]
    by (simp add: string_of_nat_1 del: string_of_nat.simps)
qed

section \<open>A concurrent insert\<close>

lemma createIfNotExists_racing_id:
  "createIfNotExists_racing sha (\<lambda>d. d) d now input = createIfNotExists sha d now input"
  by (simp add: createIfNotExists_racing_def createIfNotExists_def)

lemma createIfNotExists_racing_lost:
  assumes "existing_entry sha d input = None"
      and "existing_entry sha (concurrent d) input \<noteq> None"
  shows "createIfNotExists_racing sha concurrent d now input =
           (concurrent d, Inl (SqliteError ''UNIQUE constraint failed: entries.feed_id, entries.hash''))"
  using assms by (simp add: createIfNotExists_racing_def EntryModel_create_unique)

text \<open>
  C8, as the code has it. When the SELECT of \<^verbatim>\<open>createIfNotExists\<close> finds no entry and
  another connection inserts one with the same feed id and fingerprint before the INSERT,
  the INSERT fails on the uniqueness constraint and \<^verbatim>\<open>createIfNotExists\<close> throws that
  error; it does not return null. The \<^verbatim>\<open>try\<close> around the item in the refresh loop
  catches it: the item is not counted and the loop goes on with the items that follow.
\<close>

theorem racing_insert_thrown_then_skipped:
  assumes "truthy (it_link item)"
      and "existing_entry (lib_sha256_hex env) d
             (item_input env feed item (or_default (it_link item) [])) = None"
      and "existing_entry (lib_sha256_hex env) (concurrent d)
             (item_input env feed item (or_default (it_link item) [])) \<noteq> None"
  shows "createIfNotExists_racing (lib_sha256_hex env) concurrent d (clock_now env)
             (item_input env feed item (or_default (it_link item) []))
           = (concurrent d,
              Inl (SqliteError ''UNIQUE constraint failed: entries.feed_id, entries.hash''))
         \<and> createEntries_racing env concurrent d feed (item # items) n
           = createEntries env (concurrent d) feed items n"
  using assms
  by (simp add: createIfNotExists_racing_lost createEntryFromItem_racing_def)

lemma sample_item_input_key:
  "in_feed_id (item_input sample_env sample_feed sample_item ''https://a.example/p1'') = in_feed_id sample_input_a"
  "in_url (item_input sample_env sample_feed sample_item ''https://a.example/p1'') = in_url sample_input_a"
  "in_title (item_input sample_env sample_feed sample_item ''https://a.example/p1'') = in_title sample_input_a"
  by (simp_all add: item_input_def sample_feed_def sample_item_def sample_input_a_def Let_def
                    or_default_def)

lemma sample_concurrent_inserts:
  "existing_entry (\<lambda>s. s) (sample_concurrent sample_db) sample_input_a \<noteq> None"
  unfolding sample_concurrent_def
  by (rule createIfNotExists_then_existing) (rule sample_input_a_stored)

theorem racing_insert_thrown_then_skipped_witness:
  "truthy (it_link sample_item)
   \<and> existing_entry (lib_sha256_hex sample_env) sample_db
        (item_input sample_env sample_feed sample_item (or_default (it_link sample_item) [])) = None
   \<and> existing_entry (lib_sha256_hex sample_env) (sample_concurrent sample_db)
        (item_input sample_env sample_feed sample_item (or_default (it_link sample_item) [])) \<noteq> None
   \<and> createEntries_racing sample_env sample_concurrent sample_db sample_feed [sample_item] 0
       = (sample_concurrent sample_db, 0)"
proof -
  have link: "truthy (it_link sample_item)" "or_default (it_link sample_item) [] = ''https://a.example/p1''"
    by (simp_all add: sample_item_def or_default_def)
  have sha: "lib_sha256_hex sample_env = (\<lambda>s. s)"
    by (simp add: sample_env_def)
  have before: "existing_entry (lib_sha256_hex sample_env) sample_db
        (item_input sample_env sample_feed sample_item (or_default (it_link sample_item) [])) = None"
    by (simp add: existing_entry_def sample_db_def)
  have after: "existing_entry (lib_sha256_hex sample_env) (sample_concurrent sample_db)
        (item_input sample_env sample_feed sample_item (or_default (it_link sample_item) [])) \<noteq> None"
    using sample_concurrent_inserts existing_entry_same_key[OF sample_item_input_key]
    by (simp add: link sha)
  show ?thesis
    using racing_insert_thrown_then_skipped[where env = sample_env and d = sample_db
            and concurrent = sample_concurrent and feed = sample_feed and item = sample_item
            and items = "[]" and n = 0, OF link(1) before after]
          link(1) before after
    by simp
qed

text \<open>
  C8 as stated fails: the call that loses the race does not return null, it throws the
  constraint error.
\<close>

theorem racing_insert_counterexample:
  "existing_entry (\<lambda>s. s) sample_db sample_input_a = None
   \<and> createIfNotExists_racing (\<lambda>s. s) sample_concurrent sample_db 1000 sample_input_a
       = (sample_concurrent sample_db,
          Inl (SqliteError ''UNIQUE constraint failed: entries.feed_id, entries.hash''))
   \<and> snd (createIfNotExists_racing (\<lambda>s. s) sample_concurrent sample_db 1000 sample_input_a)
       \<noteq> Inr None"
  using createIfNotExists_racing_lost[where sha = "\<lambda>s. s" and d = sample_db
          and concurrent = sample_concurrent and input = sample_input_a and now = 1000,
          OF sample_input_a_fresh sample_concurrent_inserts]
        sample_input_a_fresh
  by simp

section \<open>The columns FeedModel.update can write\<close>

lemma assign_allowed_frame:
  assumes "key u \<in> set allowedFields"
  shows "f_id (assign u f) = f_id f \<and> f_user_id (assign u f) = f_user_id f \<and>
         f_created_at (assign u f) = f_created_at f \<and> f_disabled (assign u f) = f_disabled f"
  using assms by (cases u) (simp_all add: allowedFields_def)

lemma fold_assign_frame:
  assumes "\<forall>u \<in> set us. key u \<in> set allowedFields"
  shows "f_id (fold assign us f) = f_id f \<and> f_user_id (fold assign us f) = f_user_id f \<and>
         f_created_at (fold assign us f) = f_created_at f \<and>
         f_disabled (fold assign us f) = f_disabled f"
  using assms
proof (induction us arbitrary: f)
  case Nil
  then show ?case by simp
next
  case (Cons u us)
  then show ?case using assign_allowed_frame[of u f] by simp
qed

lemma set_row_frame:
  "f_id (set_row (filter (\<lambda>u. key u \<in> set allowedFields) updates) now f) = f_id f"
  "f_user_id (set_row (filter (\<lambda>u. key u \<in> set allowedFields) updates) now f) = f_user_id f"
  "f_created_at (set_row (filter (\<lambda>u. key u \<in> set allowedFields) updates) now f) = f_created_at f"
  "f_disabled (set_row (filter (\<lambda>u. key u \<in> set allowedFields) updates) now f) = f_disabled f"
  using fold_assign_frame[of "filter (\<lambda>u. key u \<in> set allowedFields) updates" f]
  by (simp_all add: set_row_def)

lemma FeedModel_update_cases:
  "fst (FeedModel_update d now feedId userId updates) = d \<or>
   fst (FeedModel_update d now feedId userId updates) =
     d\<lparr> feeds := map (\<lambda>f. if f_id f = feedId \<and> f_user_id f = userId
                           then set_row (filter (\<lambda>u. key u \<in> set allowedFields) updates) now f
                           else f) (feeds d) \<rparr>"
  by (simp add: FeedModel_update_def Let_def)

lemma FeedModel_update_columns:
  "map f_id (feeds (fst (FeedModel_update d now feedId userId updates))) = map f_id (feeds d)"
  "map f_user_id (feeds (fst (FeedModel_update d now feedId userId updates))) = map f_user_id (feeds d)"
  "map f_created_at (feeds (fst (FeedModel_update d now feedId userId updates))) = map f_created_at (feeds d)"
  "map f_disabled (feeds (fst (FeedModel_update d now feedId userId updates))) = map f_disabled (feeds d)"
  using FeedModel_update_cases[of d now feedId userId updates]
  by (auto simp: set_row_frame)

lemma FeedModel_update_other_tables:
  "categories (fst (FeedModel_update d now feedId userId updates)) = categories d"
  "entries (fst (FeedModel_update d now feedId userId updates)) = entries d"
  "enclosures (fst (FeedModel_update d now feedId userId updates)) = enclosures d"
  using FeedModel_update_cases[of d now feedId userId updates]
  by auto

lemma FeedModel_update_drops_disabled:
  "FeedModel_update d now feedId userId (Set_disabled b # updates)
   = FeedModel_update d now feedId userId updates"
  by (simp add: FeedModel_update_def allowedFields_def)

lemma updateFeed_state:
  "fst (updateFeed d now feedId userId updates) = d \<or>
   fst (updateFeed d now feedId userId updates) = fst (FeedModel_update d now feedId userId updates)"
  by (simp add: updateFeed_def Let_def split: option.splits)

text \<open>
  C10. Whatever the \<^verbatim>\<open>updates\<close> object holds, \<^verbatim>\<open>FeedModel.update\<close> leaves the columns
  \<^verbatim>\<open>id\<close>, \<^verbatim>\<open>user_id\<close>, \<^verbatim>\<open>created_at\<close> and \<^verbatim>\<open>disabled\<close> of every feed row as they were
  (these are the columns outside the allow-list and \<^verbatim>\<open>updated_at\<close>); a \<^verbatim>\<open>disabled\<close>
  property changes nothing in what the call does; and \<^verbatim>\<open>updateFeed\<close> called with a
  \<^verbatim>\<open>disabled\<close> property leaves the stored \<^verbatim>\<open>disabled\<close> values as they were.
\<close>

theorem FeedModel_update_allow_list:
  "map f_id (feeds (fst (FeedModel_update d now feedId userId updates))) = map f_id (feeds d)
   \<and> map f_user_id (feeds (fst (FeedModel_update d now feedId userId updates)))
       = map f_user_id (feeds d)
   \<and> map f_created_at (feeds (fst (FeedModel_update d now feedId userId updates)))
       = map f_created_at (feeds d)
   \<and> map f_disabled (feeds (fst (FeedModel_update d now feedId userId updates)))
       = map f_disabled (feeds d)
   \<and> FeedModel_update d now feedId userId (Set_disabled b # updates)
       = FeedModel_update d now feedId userId updates
   \<and> map f_disabled (feeds (fst (updateFeed d now feedId userId (Set_disabled b # updates))))
       = map f_disabled (feeds d)"
  using FeedModel_update_columns[of d now feedId userId updates]
        FeedModel_update_columns(4)[of d now feedId userId "Set_disabled b # updates"]
        FeedModel_update_drops_disabled[of d now feedId userId b updates]
        updateFeed_state[of d now feedId userId "Set_disabled b # updates"]
  by auto

text \<open>
  On the sample store: an update with a title, a \<^verbatim>\<open>disabled\<close> flag and an \<^verbatim>\<open>id\<close> writes
  the title and nothing else than \<^verbatim>\<open>updated_at\<close>.
\<close>

theorem FeedModel_update_allow_list_witness:
  "feeds (fst (FeedModel_update sample_db 1000 1 1 [Set_title ''B'', Set_disabled True, Set_id 7]))
     = [sample_feed\<lparr> f_title := ''B'', f_updated_at := 1000 \<rparr>]
   \<and> map f_disabled
        (feeds (fst (FeedModel_update sample_db 1000 1 1 [Set_title ''B'', Set_disabled True, Set_id 7])))
     = map f_disabled (feeds sample_db)"
proof -
  have "feeds (fst (FeedModel_update sample_db 1000 1 1 [Set_title ''B'', Set_disabled True, Set_id 7]))
     = [sample_feed\<lparr> f_title := ''B'', f_updated_at := 1000 \<rparr>]"
    by (simp add: FeedModel_update_def allowedFields_def set_row_def Let_def
                  FeedModel_findById_def sample_db_def sample_feed_def)
  then show ?thesis
    using FeedModel_update_allow_list[of sample_db 1000 1 1
            "[Set_title ''B'', Set_disabled True, Set_id 7]" True]
    by simp
qed

section \<open>The request of a conditional fetch\<close>

lemma fetchFeed_request_ignores_options:
  "fetchFeed_request url options = parseURL_request url"
  by (simp add: fetchFeed_request_def Let_def)

lemma fetchFeed_ignores_options: "fetchFeed env url options = fetchFeed env url options'"
  by (simp add: fetchFeed_def fetchFeed_request_ignores_options)

text \<open>
  C6 on the sample feed, which holds an ETag and a Last-Modified value: \<^verbatim>\<open>fetchFeed\<close>
  builds both conditional headers, and the request it sends carries neither.
\<close>

theorem fetchFeed_request_without_validators:
  "conditional_headers
      \<lparr> fo_etag = f_etag_header sample_feed,
        fo_lastModified = f_last_modified_header sample_feed \<rparr>
     = [(''If-None-Match'', ''abc''), (''If-Modified-Since'', ''Mon, 01 Jan 2024 00:00:00 GMT'')]
   \<and> map_of (req_headers (fetchFeed_request (f_feed_url sample_feed)
        \<lparr> fo_etag = f_etag_header sample_feed,
          fo_lastModified = f_last_modified_header sample_feed \<rparr>)) ''If-None-Match'' = None
   \<and> map_of (req_headers (fetchFeed_request (f_feed_url sample_feed)
        \<lparr> fo_etag = f_etag_header sample_feed,
          fo_lastModified = f_last_modified_header sample_feed \<rparr>)) ''If-Modified-Since'' = None"
  by (simp add: conditional_headers_def fetchFeed_request_def parseURL_request_def
                parser_headers_def sample_feed_def Let_def)

section \<open>Creating the entries of a document\<close>

lemma existing_entry_item:
  "(existing_entry (lib_sha256_hex env) d (item_input env feed item (or_default (it_link item) [])) \<noteq> None)
   = has_entry d (f_id feed) (item_hash env (f_id feed) item)"
  by (simp add: existing_entry_None has_entry_def item_hash_def item_input_def Let_def)

lemma addEnclosure_ok:
  assumes "list_ex (\<lambda>e. e_id e = i) (entries d)"
  shows "\<exists>row. addEnclosure d i enclosure =
           (d\<lparr> enclosures := enclosures d @ [row], seq_enclosures := enc_id row \<rparr>, Inr row)"
  using assms by (simp add: addEnclosure_def Let_def)

lemma add_item_enclosure_ok:
  assumes "list_ex (\<lambda>x. e_id x = e_id e) (entries d)"
  shows "snd (add_item_enclosure d e item) = Inr (Some e)
         \<and> entries (fst (add_item_enclosure d e item)) = entries d
         \<and> feeds (fst (add_item_enclosure d e item)) = feeds d
         \<and> categories (fst (add_item_enclosure d e item)) = categories d"
proof (cases "item_enclosure item")
  case None
  then show ?thesis by (simp add: add_item_enclosure_def)
next
  case (Some enclosure)
  obtain row where "addEnclosure d (e_id e) enclosure =
           (d\<lparr> enclosures := enclosures d @ [row], seq_enclosures := enc_id row \<rparr>, Inr row)"
    using addEnclosure_ok[OF assms] by blast
  then show ?thesis using Some by (simp add: add_item_enclosure_def)
qed

lemma createEntryFromItem_known:
  assumes "\<not> truthy (it_link item) \<or> has_entry d (f_id feed) (item_hash env (f_id feed) item)"
  shows "createEntryFromItem env d feed item = (d, Inr None)"
  using assms existing_entry_item[of env d feed item]
  by (auto simp: createEntryFromItem_def createIfNotExists_def)

lemma createEntryFromItem_new:
  assumes link: "truthy (it_link item)"
      and new: "\<not> has_entry d (f_id feed) (item_hash env (f_id feed) item)"
      and feed: "list_ex (\<lambda>f. f_id f = f_id feed) (feeds d)"
  shows "\<exists>e. snd (createEntryFromItem env d feed item) = Inr (Some e)
          \<and> entries (fst (createEntryFromItem env d feed item)) = entries d @ [e]
          \<and> e_feed_id e = f_id feed \<and> e_hash e = item_hash env (f_id feed) item
          \<and> e_url e = or_default (it_link item) []
          \<and> feeds (fst (createEntryFromItem env d feed item)) = feeds d
          \<and> categories (fst (createEntryFromItem env d feed item)) = categories d"
proof -
  let ?input = "item_input env feed item (or_default (it_link item) [])"
  let ?row = "new_entry_row (lib_sha256_hex env) d (clock_now env) ?input"
  let ?d1 = "d\<lparr> entries := entries d @ [?row], seq_entries := e_id ?row \<rparr>"
  have none: "existing_entry (lib_sha256_hex env) d ?input = None"
    using new existing_entry_item[of env d feed item] by simp
  have fk: "list_ex (\<lambda>f. f_id f = in_feed_id ?input) (feeds d)"
    using feed by (simp add: item_input_def Let_def)
  have step: "createEntryFromItem env d feed item = add_item_enclosure ?d1 ?row item"
    using link none EntryModel_create_ok[OF none fk, of "clock_now env"]
    by (simp add: createEntryFromItem_def createIfNotExists_def)
  have "list_ex (\<lambda>x. e_id x = e_id ?row) (entries ?d1)"
    by simp
  from add_item_enclosure_ok[OF this, of item]
  show ?thesis
    unfolding step
    by (intro exI[of _ ?row])
       (simp add: new_entry_row_def item_hash_def item_input_def Let_def)
qed

lemma createEntryFromItem_no_feed:
  assumes link: "truthy (it_link item)"
      and new: "\<not> has_entry d (f_id feed) (item_hash env (f_id feed) item)"
      and feed: "\<not> list_ex (\<lambda>f. f_id f = f_id feed) (feeds d)"
  shows "createEntryFromItem env d feed item = (d, Inl (SqliteError ''FOREIGN KEY constraint failed''))"
proof -
  let ?input = "item_input env feed item (or_default (it_link item) [])"
  have none: "existing_entry (lib_sha256_hex env) d ?input = None"
    using new existing_entry_item[of env d feed item] by simp
  have fk: "\<not> list_ex (\<lambda>f. f_id f = in_feed_id ?input) (feeds d)"
    using feed by (simp add: item_input_def Let_def)
  show ?thesis
    using link none EntryModel_create_fk[OF none fk, of "clock_now env"]
    by (simp add: createEntryFromItem_def createIfNotExists_def)
qed

text \<open>One item: the entries grow by at most the item's entry, the other tables stay.\<close>

lemma createEntryFromItem_step:
  "(createEntryFromItem env d feed item = (d, Inr None)
      \<and> (\<not> truthy (it_link item) \<or> has_entry d (f_id feed) (item_hash env (f_id feed) item)))
   \<or> (createEntryFromItem env d feed item = (d, Inl (SqliteError ''FOREIGN KEY constraint failed''))
      \<and> \<not> list_ex (\<lambda>f. f_id f = f_id feed) (feeds d))
   \<or> (\<exists>e. snd (createEntryFromItem env d feed item) = Inr (Some e)
          \<and> entries (fst (createEntryFromItem env d feed item)) = entries d @ [e]
          \<and> e_feed_id e = f_id feed \<and> e_hash e = item_hash env (f_id feed) item
          \<and> e_url e = or_default (it_link item) []
          \<and> truthy (it_link item)
          \<and> \<not> has_entry d (f_id feed) (item_hash env (f_id feed) item)
          \<and> feeds (fst (createEntryFromItem env d feed item)) = feeds d
          \<and> categories (fst (createEntryFromItem env d feed item)) = categories d)"
  using createEntryFromItem_known[of item d feed env]
        createEntryFromItem_new[of item d feed env]
        createEntryFromItem_no_feed[of item d feed env]
  by blast

lemma createEntryFromItem_feeds:
  "feeds (fst (createEntryFromItem env d feed item)) = feeds d"
  using createEntryFromItem_step[of env d feed item] by auto

lemma createEntryFromItem_categories:
  "categories (fst (createEntryFromItem env d feed item)) = categories d"
  using createEntryFromItem_step[of env d feed item] by auto

lemma has_entry_append: "has_entry d i h \<Longrightarrow> entries d' = entries d @ es \<Longrightarrow> has_entry d' i h"
  by (auto simp: has_entry_def list_ex_iff)

lemma createEntryFromItem_keeps:
  "has_entry d i h \<Longrightarrow> has_entry (fst (createEntryFromItem env d feed item)) i h"
  using createEntryFromItem_step[of env d feed item]
  by (auto intro: has_entry_append[where es = "[e]" for e])

lemma createEntryFromItem_stores:
  assumes "truthy (it_link item)" "list_ex (\<lambda>f. f_id f = f_id feed) (feeds d)"
  shows "has_entry (fst (createEntryFromItem env d feed item)) (f_id feed) (item_hash env (f_id feed) item)"
  using createEntryFromItem_step[of env d feed item] assms
  by (auto simp: has_entry_def)

lemma createEntries_Cons:
  "createEntries env d feed (item # items) n =
     createEntries env (fst (createEntryFromItem env d feed item)) feed items
       (if \<exists>e. snd (createEntryFromItem env d feed item) = Inr (Some e) then n + 1 else n)"
  by (auto split: prod.splits sum.splits option.splits)

lemma createEntries_feeds: "feeds (fst (createEntries env d feed items n)) = feeds d"
proof (induction items arbitrary: d n)
  case Nil
  then show ?case by simp
next
  case (Cons item items)
  show ?case
    unfolding createEntries_Cons
    by (simp only: Cons.IH createEntryFromItem_feeds)
qed

lemma createEntries_categories: "categories (fst (createEntries env d feed items n)) = categories d"
proof (induction items arbitrary: d n)
  case Nil
  then show ?case by simp
next
  case (Cons item items)
  show ?case
    unfolding createEntries_Cons
    by (simp only: Cons.IH createEntryFromItem_categories)
qed

lemma createEntries_keeps:
  "has_entry d i h \<Longrightarrow> has_entry (fst (createEntries env d feed items n)) i h"
proof (induction items arbitrary: d n)
  case Nil
  then show ?case by simp
next
  case (Cons item items)
  show ?case
    unfolding createEntries_Cons
    by (rule Cons.IH) (rule createEntryFromItem_keeps[OF Cons.prems])
qed

lemma createEntries_stores:
  assumes "list_ex (\<lambda>f. f_id f = f_id feed) (feeds d)" "item \<in> set items" "truthy (it_link item)"
  shows "has_entry (fst (createEntries env d feed items n)) (f_id feed) (item_hash env (f_id feed) item)"
  using assms
proof (induction items arbitrary: d n)
  case Nil
  then show ?case by simp
next
  case (Cons x items)
  let ?d1 = "fst (createEntryFromItem env d feed x)"
  have feeds1: "list_ex (\<lambda>f. f_id f = f_id feed) (feeds ?d1)"
    using Cons.prems(1) by (simp add: createEntryFromItem_feeds)
  show ?case
  proof (cases "item = x")
    case True
    have "has_entry ?d1 (f_id feed) (item_hash env (f_id feed) item)"
      using createEntryFromItem_stores[OF _ Cons.prems(1), of x env] Cons.prems(3) True by simp
    then show ?thesis
      unfolding createEntries_Cons by (rule createEntries_keeps)
  next
    case False
    then have "item \<in> set items" using Cons.prems(2) by simp
    then show ?thesis
      unfolding createEntries_Cons using Cons.IH[OF feeds1 _ Cons.prems(3)] by blast
  qed
qed

lemma createEntries_known:
  assumes "\<forall>item \<in> set items. truthy (it_link item)
             \<longrightarrow> has_entry d (f_id feed) (item_hash env (f_id feed) item)"
  shows "createEntries env d feed items n = (d, n)"
  using assms
proof (induction items arbitrary: n)
  case Nil
  then show ?case by simp
next
  case (Cons x items)
  have "createEntryFromItem env d feed x = (d, Inr None)"
    by (rule createEntryFromItem_known) (use Cons.prems in auto)
  then show ?case
    unfolding createEntries_Cons using Cons by simp
qed

text \<open>
  The loop appends entries and counts them: the count grows by the number of entries
  appended, at most one for an item, and their links are links of the items, in the
  order of the items.
\<close>

lemma createEntries_count:
  "\<exists>es. entries (fst (createEntries env d feed items n)) = entries d @ es
        \<and> snd (createEntries env d feed items n) = n + length es
        \<and> length es \<le> length items
        \<and> (\<forall>e \<in> set es. e_feed_id e = f_id feed)
        \<and> subseq (map (\<lambda>e. Some (e_url e)) es) (map it_link items)"
proof (induction items arbitrary: d n)
  case Nil
  then show ?case by simp
next
  case (Cons x items)
  let ?r = "createEntryFromItem env d feed x"
  let ?n1 = "if \<exists>e. snd ?r = Inr (Some e) then n + 1 else n"
  obtain es where es:
      "entries (fst (createEntries env (fst ?r) feed items ?n1)) = entries (fst ?r) @ es"
      "snd (createEntries env (fst ?r) feed items ?n1) = ?n1 + length es"
      "length es \<le> length items"
      "\<forall>e \<in> set es. e_feed_id e = f_id feed"
      "subseq (map (\<lambda>e. Some (e_url e)) es) (map it_link items)"
    using Cons.IH[of "fst ?r" ?n1] by blast
  consider (skip) "fst ?r = d" "\<not> (\<exists>e. snd ?r = Inr (Some e))"
    | (new) e where "snd ?r = Inr (Some e)" "entries (fst ?r) = entries d @ [e]"
        "e_feed_id e = f_id feed" "e_url e = or_default (it_link x) []" "truthy (it_link x)"
    using createEntryFromItem_step[of env d feed x] by auto
  then show ?case
  proof cases
    case skip
    have "subseq (map (\<lambda>e. Some (e_url e)) es) (map it_link (x # items))"
      using es(5) by (simp add: list_emb_Cons)
    then show ?thesis
      unfolding createEntries_Cons
      by (intro exI[of _ es]) (use es(1-4) skip in auto)
  next
    case new
    have "it_link x = Some (e_url e)"
      using new(4,5) by (cases "it_link x") (auto simp: or_default_def)
    then have "subseq (map (\<lambda>e. Some (e_url e)) (e # es)) (map it_link (x # items))"
      using es(5) by simp
    then show ?thesis
      unfolding createEntries_Cons
      by (intro exI[of _ "e # es"]) (use es(1-4) new(1-3) in auto)
  qed
qed

lemma has_entry_snoc:
  assumes "entries d' = entries d @ [e]"
  shows "has_entry d' i h = (has_entry d i h \<or> (e_feed_id e = i \<and> e_hash e = h))"
  using assms by (auto simp: has_entry_def list_ex_iff)

lemma createEntries_all_new:
  assumes "list_ex (\<lambda>f. f_id f = f_id feed) (feeds d)"
      and "\<forall>item \<in> set items. truthy (it_link item)
             \<and> \<not> has_entry d (f_id feed) (item_hash env (f_id feed) item)"
      and "distinct (map (item_hash env (f_id feed)) items)"
  shows "snd (createEntries env d feed items n) = n + length items"
  using assms
proof (induction items arbitrary: d n)
  case Nil
  then show ?case by simp
next
  case (Cons x items)
  let ?r = "createEntryFromItem env d feed x"
  obtain e where e: "snd ?r = Inr (Some e)" "entries (fst ?r) = entries d @ [e]"
      "e_feed_id e = f_id feed" "e_hash e = item_hash env (f_id feed) x" "feeds (fst ?r) = feeds d"
    using createEntryFromItem_new[of x d feed env] Cons.prems by auto
  have 1: "list_ex (\<lambda>f. f_id f = f_id feed) (feeds (fst ?r))"
    using Cons.prems(1) e(5) by simp
  have 2: "\<forall>item \<in> set items. truthy (it_link item)
             \<and> \<not> has_entry (fst ?r) (f_id feed) (item_hash env (f_id feed) item)"
    using Cons.prems(2,3) by (auto simp: has_entry_snoc[OF e(2)] e(4))
  have 3: "distinct (map (item_hash env (f_id feed)) items)"
    using Cons.prems(3) by simp
  show ?case
    unfolding createEntries_Cons using Cons.IH[OF 1 2 3, of "n + 1"] e(1) by simp
qed

section \<open>One refresh\<close>

lemma FeedModel_findById_map:
  assumes "\<And>f. f_id (h f) = f_id f"
  shows "FeedModel_findById (d\<lparr>feeds := map h (feeds d0)\<rparr>) j = map_option h (FeedModel_findById d0 j)"
  using assms by (simp add: FeedModel_findById_def find_map_same_id)

lemma FeedModel_findById_feeds:
  "feeds d' = feeds d \<Longrightarrow> FeedModel_findById d' j = FeedModel_findById d j"
  by (simp add: FeedModel_findById_def)

lemma FeedModel_findById_list_ex:
  "FeedModel_findById d i = Some f \<Longrightarrow> list_ex (\<lambda>g. f_id g = i) (feeds d)"
  using FeedModel_findById_Some[of d i f] by (auto simp: list_ex_iff)

lemma set_row_favicon:
  "set_row [Set_favicon_url (Some x)] now = (\<lambda>f. f\<lparr> f_favicon_url := Some x, f_updated_at := now \<rparr>)"
  by (rule ext) (simp add: set_row_def)

lemma FeedModel_update_favicon:
  "FeedModel_update d now i u [Set_favicon_url (Some x)] =
     (d\<lparr> feeds := map (\<lambda>f. if f_id f = i \<and> f_user_id f = u
                            then f\<lparr> f_favicon_url := Some x, f_updated_at := now \<rparr> else f) (feeds d) \<rparr>,
      Inr (FeedModel_findById
             (d\<lparr> feeds := map (\<lambda>f. if f_id f = i \<and> f_user_id f = u
                            then f\<lparr> f_favicon_url := Some x, f_updated_at := now \<rparr> else f) (feeds d) \<rparr>)
             i))"
  by (simp add: FeedModel_update_def allowedFields_def set_row_favicon Let_def cong: if_cong)

text \<open>
  What a refresh does to the feeds table is a row-wise rewriting \<open>h\<close> that keeps every id
  and every row of another id.
\<close>

lemma refresh_try_fetched:
  assumes "refresh_fetch env feed = Inr pf"
  shows "\<exists>h r. refresh_try env d feed
                 = ((fst (createEntries env d feed (pf_items pf) 0))\<lparr>feeds := map h (feeds d)\<rparr>, Inr r)
           \<and> rr_success r
           \<and> rr_newEntries r = snd (createEntries env d feed (pf_items pf) 0)
           \<and> rr_feed r = map_option h (FeedModel_findById d (f_id feed))
           \<and> (\<forall>f. f_id (h f) = f_id f)
           \<and> (\<forall>f. f_feed_url (h f) = f_feed_url f)
           \<and> (\<forall>f. f_id f \<noteq> f_id feed \<longrightarrow> h f = f)
           \<and> (\<forall>f. f_id f = f_id feed \<longrightarrow> after_success env (h f))"
proof -
  let ?c = "createEntries env d feed (pf_items pf) 0"
  let ?now = "clock_now env"
  let ?h1 = "\<lambda>f. if f_id f = f_id feed
              then f\<lparr> f_last_fetched_at := Some ?now,
                      f_next_fetch_at := datetime_plus_minutes ?now
                         (interval_or_60 (cfg_feedRefreshIntervalMinutes env)),
                      f_etag_header := None,
                      f_last_modified_header := None,
                      f_error_count := 0,
                      f_error_message := None,
                      f_updated_at := ?now \<rparr>
              else f"
  let ?d2 = "updateFetchResult (fst ?c) ?now (f_id feed) True (success_options env)"
  have d2: "?d2 = (fst ?c)\<lparr>feeds := map ?h1 (feeds d)\<rparr>"
    by (simp add: updateFetchResult_def success_options_def or_null_def createEntries_feeds Let_def)
  let ?favicon = "if \<not> truthy (f_favicon_url feed) \<and> truthy (pf_link pf)
                  then or_null (fetchFavicon env (or_default (pf_link pf) [])) else None"
  show ?thesis
  proof (cases ?favicon)
    case None
    have "refresh_try env d feed
          = (?d2, Inr \<lparr> rr_feed = FeedModel_findById ?d2 (f_id feed),
                        rr_newEntries = snd ?c, rr_success = True, rr_error = None \<rparr>)"
      using assms None by (simp add: refresh_try_def Let_def split: prod.splits)
    then show ?thesis
      unfolding d2
      by (intro exI[of _ ?h1] exI[of _ "\<lparr> rr_feed = FeedModel_findById ((fst ?c)\<lparr>feeds := map ?h1 (feeds d)\<rparr>) (f_id feed),
                        rr_newEntries = snd ?c, rr_success = True, rr_error = None \<rparr>"])
         (simp add: FeedModel_findById_map after_success_def)
  next
    case (Some x)
    let ?h2 = "\<lambda>f. if f_id f = f_id feed \<and> f_user_id f = f_user_id feed
                 then f\<lparr> f_favicon_url := Some x, f_updated_at := ?now \<rparr> else f"
    let ?d3 = "?d2\<lparr>feeds := map ?h2 (feeds ?d2)\<rparr>"
    have d3: "?d3 = (fst ?c)\<lparr>feeds := map (?h2 \<circ> ?h1) (feeds d)\<rparr>"
      unfolding d2 by simp
    have "refresh_try env d feed
          = (?d3, Inr \<lparr> rr_feed = FeedModel_findById ?d3 (f_id feed),
                        rr_newEntries = snd ?c, rr_success = True, rr_error = None \<rparr>)"
      using assms Some
      by (simp add: refresh_try_def Let_def FeedModel_update_favicon split: prod.splits)
    then show ?thesis
      unfolding d3
      by (intro exI[of _ "?h2 \<circ> ?h1"] exI[of _ "\<lparr> rr_feed = FeedModel_findById ((fst ?c)\<lparr>feeds := map (?h2 \<circ> ?h1) (feeds d)\<rparr>) (f_id feed),
                        rr_newEntries = snd ?c, rr_success = True, rr_error = None \<rparr>"])
         (simp add: FeedModel_findById_map after_success_def)
  qed
qed



lemma refreshFeed_fetched:
  assumes found: "FeedModel_findById d feedId = Some feed"
      and fetched: "refresh_fetch env feed = Inr pf"
  shows "\<exists>r row. snd (refreshFeed env d feedId) = Inr r
           \<and> rr_success r
           \<and> rr_newEntries r = snd (createEntries env d feed (pf_items pf) 0)
           \<and> rr_feed r = Some row
           \<and> FeedModel_findById (fst (refreshFeed env d feedId)) feedId = Some row
           \<and> f_id row = feedId
           \<and> f_feed_url row = f_feed_url feed
           \<and> after_success env row
           \<and> entries (fst (refreshFeed env d feedId)) = entries (fst (createEntries env d feed (pf_items pf) 0))
           \<and> enclosures (fst (refreshFeed env d feedId)) = enclosures (fst (createEntries env d feed (pf_items pf) 0))
           \<and> (\<forall>j. j \<noteq> feedId \<longrightarrow> FeedModel_findById (fst (refreshFeed env d feedId)) j = FeedModel_findById d j)"
proof -
  have id: "f_id feed = feedId" using FeedModel_findById_Some[OF found] by simp
  obtain h r where h:
      "refresh_try env d feed
         = ((fst (createEntries env d feed (pf_items pf) 0))\<lparr>feeds := map h (feeds d)\<rparr>, Inr r)"
      "rr_success r" "rr_newEntries r = snd (createEntries env d feed (pf_items pf) 0)"
      "rr_feed r = map_option h (FeedModel_findById d (f_id feed))"
      "\<And>f. f_id (h f) = f_id f"
      "\<And>f. f_id f \<noteq> f_id feed \<Longrightarrow> h f = f"
      "\<And>f. f_id f = f_id feed \<Longrightarrow> after_success env (h f)"
      "\<And>f. f_feed_url (h f) = f_feed_url f"
    using refresh_try_fetched[OF fetched, of d] by blast
  have run: "refreshFeed env d feedId
         = ((fst (createEntries env d feed (pf_items pf) 0))\<lparr>feeds := map h (feeds d)\<rparr>, Inr r)"
    using found h(1) by (simp add: refreshFeed_def)
  have other: "FeedModel_findById ((fst (createEntries env d feed (pf_items pf) 0))\<lparr>feeds := map h (feeds d)\<rparr>) j
         = FeedModel_findById d j" if "j \<noteq> feedId" for j
  proof (cases "FeedModel_findById d j")
    case None
    then show ?thesis using h(5) by (simp add: FeedModel_findById_map)
  next
    case (Some g)
    then have "f_id g = j" using FeedModel_findById_Some by blast
    then have "h g = g" using that id h(6) by simp
    then show ?thesis using Some h(5) by (simp add: FeedModel_findById_map)
  qed
  show ?thesis
    unfolding run
    by (intro exI[of _ r] exI[of _ "h feed"])
       (use h found id other in \<open>simp add: FeedModel_findById_map\<close>)
qed


section \<open>The row after a successful refresh\<close>

lemma refresh_fetch_parsed:
  assumes "net_get_feed env (parseURL_request (f_feed_url feed)) = Inr out"
  shows "\<exists>pf. refresh_fetch env feed = Inr pf \<and> pf_items pf = po_items out"
  using assms by (simp add: refresh_fetch_def fetchFeed_def fetchFeed_request_ignores_options)

lemma refresh_fetch_error:
  assumes "net_get_feed env (parseURL_request (f_feed_url feed)) = Inl err"
  shows "refresh_fetch env feed = Inl err"
  using assms by (simp add: refresh_fetch_def fetchFeed_def fetchFeed_request_ignores_options)

lemma sample_feed_found: "FeedModel_findById sample_db 1 = Some sample_feed"
  by (simp add: FeedModel_findById_def sample_db_def sample_feed_def)

lemma sample_fetch: "net_get_feed sample_env (parseURL_request (f_feed_url sample_feed)) = Inr sample_output"
  by (simp add: sample_env_def)

text \<open>
  C7 on the sample feed, whose row holds an ETag and a Last-Modified value. The fetch
  succeeds; afterwards both validator columns are NULL (nothing of the response reaches
  \<^verbatim>\<open>updateFetchResult\<close>, whose \<^verbatim>\<open>etag\<close> and \<^verbatim>\<open>lastModified\<close> options \<^verbatim>\<open>refreshFeed\<close> leaves
  out). The other columns are as the claim says: error count 0, no error message, last
  fetch at \<open>now\<close>, next fetch 60 minutes later.
\<close>

theorem refreshFeed_success_clears_validators:
  "f_etag_header sample_feed = Some ''abc''
   \<and> f_last_modified_header sample_feed = Some ''Mon, 01 Jan 2024 00:00:00 GMT''
   \<and> map_sum message rr_success (snd (refreshFeed sample_env sample_db 1)) = Inr True
   \<and> map_option f_etag_header
        (FeedModel_findById (fst (refreshFeed sample_env sample_db 1)) 1) = Some None
   \<and> map_option f_last_modified_header
        (FeedModel_findById (fst (refreshFeed sample_env sample_db 1)) 1) = Some None
   \<and> map_option f_error_count
        (FeedModel_findById (fst (refreshFeed sample_env sample_db 1)) 1) = Some 0
   \<and> map_option f_error_message
        (FeedModel_findById (fst (refreshFeed sample_env sample_db 1)) 1) = Some None
   \<and> map_option f_last_fetched_at
        (FeedModel_findById (fst (refreshFeed sample_env sample_db 1)) 1) = Some (Some 1000)
   \<and> map_option f_next_fetch_at
        (FeedModel_findById (fst (refreshFeed sample_env sample_db 1)) 1) = Some (Some (1000 + 60 * 60))"
proof -
  obtain pf where pf: "refresh_fetch sample_env sample_feed = Inr pf"
    using refresh_fetch_parsed[OF sample_fetch] by blast
  obtain r row where r:
      "snd (refreshFeed sample_env sample_db 1) = Inr r" "rr_success r"
      "FeedModel_findById (fst (refreshFeed sample_env sample_db 1)) 1 = Some row"
      "after_success sample_env row"
    using refreshFeed_fetched[OF sample_feed_found pf] by blast
  have "clock_now sample_env = 1000" "cfg_feedRefreshIntervalMinutes sample_env = Some 60"
    by (simp_all add: sample_env_def)
  then show ?thesis
    using r
    by (simp add: after_success_def interval_or_60_def datetime_plus_minutes_def sample_feed_def)
qed

section \<open>Refreshing twice\<close>

lemma has_entry_entries: "entries d' = entries d \<Longrightarrow> has_entry d' i h = has_entry d i h"
  by (simp add: has_entry_def)

lemma item_hash_same:
  assumes "lib_sha256_hex env2 = lib_sha256_hex env1"
      and "it_link b = it_link a" "it_title b = it_title a"
  shows "item_hash env2 i b = item_hash env1 i a"
  using assms by (simp add: item_hash_def)

text \<open>
  C3. A feed is refreshed, the fetch succeeds; it is refreshed again and the document
  has the same items as to their links and titles (their other fields may differ). The
  second refresh succeeds, reports no new entry, and leaves the entries and the enclosures
  as the first refresh left them.
\<close>

theorem refreshFeed_twice_no_new_entries:
  assumes found: "FeedModel_findById d feedId = Some feed"
      and first: "net_get_feed env1 (parseURL_request (f_feed_url feed)) = Inr out1"
      and second: "net_get_feed env2 (parseURL_request (f_feed_url feed)) = Inr out2"
      and same: "map (\<lambda>item. (it_link item, it_title item)) (po_items out2)
                 = map (\<lambda>item. (it_link item, it_title item)) (po_items out1)"
      and sha: "lib_sha256_hex env2 = lib_sha256_hex env1"
  shows "\<exists>res. snd (refreshFeed env2 (fst (refreshFeed env1 d feedId)) feedId) = Inr res
           \<and> rr_success res
           \<and> rr_newEntries res = 0
           \<and> entries (fst (refreshFeed env2 (fst (refreshFeed env1 d feedId)) feedId))
               = entries (fst (refreshFeed env1 d feedId))
           \<and> enclosures (fst (refreshFeed env2 (fst (refreshFeed env1 d feedId)) feedId))
               = enclosures (fst (refreshFeed env1 d feedId))"
proof -
  let ?d1 = "fst (refreshFeed env1 d feedId)"
  have id: "f_id feed = feedId" using FeedModel_findById_Some[OF found] by simp
  obtain pf1 where pf1: "refresh_fetch env1 feed = Inr pf1" "pf_items pf1 = po_items out1"
    using refresh_fetch_parsed[OF first] by blast
  let ?c1 = "createEntries env1 d feed (po_items out1) 0"
  obtain row where row:
      "FeedModel_findById ?d1 feedId = Some row" "f_id row = feedId"
      "f_feed_url row = f_feed_url feed"
      "entries ?d1 = entries (fst ?c1)"
    using refreshFeed_fetched[OF found pf1(1)] pf1(2) by auto
  obtain pf2 where pf2: "refresh_fetch env2 row = Inr pf2" "pf_items pf2 = po_items out2"
    using refresh_fetch_parsed[of env2 row out2] second row(3) by auto
  have known: "\<forall>item \<in> set (po_items out2). truthy (it_link item)
                 \<longrightarrow> has_entry ?d1 (f_id row) (item_hash env2 (f_id row) item)"
  proof (intro ballI impI)
    fix item assume item: "item \<in> set (po_items out2)" "truthy (it_link item)"
    have "(it_link item, it_title item) \<in> set (map (\<lambda>item. (it_link item, it_title item)) (po_items out1))"
      using item(1) same[symmetric] by (simp add: rev_image_eqI)
    then obtain item1 where item1: "item1 \<in> set (po_items out1)"
        "it_link item1 = it_link item" "it_title item1 = it_title item"
      by auto
    have "has_entry (fst ?c1) (f_id feed) (item_hash env1 (f_id feed) item1)"
      by (rule createEntries_stores)
         (use item1 item(2) FeedModel_findById_list_ex[OF found] id in auto)
    moreover have "item_hash env2 (f_id row) item = item_hash env1 (f_id feed) item1"
      using item_hash_same[OF sha, of item item1 feedId] item1 id row(2) by simp
    ultimately show "has_entry ?d1 (f_id row) (item_hash env2 (f_id row) item)"
      using has_entry_entries[OF row(4)] id row(2) by simp
  qed
  have loop: "createEntries env2 ?d1 row (pf_items pf2) 0 = (?d1, 0)"
    unfolding pf2(2) by (rule createEntries_known) (rule known)
  show ?thesis
    using refreshFeed_fetched[OF row(1) pf2(1)] loop by auto
qed

lemma sample_first_refresh:
  "length (entries (fst (refreshFeed sample_env sample_db 1))) = 1"
proof -
  obtain pf where pf: "refresh_fetch sample_env sample_feed = Inr pf" "pf_items pf = [sample_item]"
    using refresh_fetch_parsed[OF sample_fetch] by (auto simp: sample_output_def)
  have stored: "entries (fst (refreshFeed sample_env sample_db 1))
        = entries (fst (createEntries sample_env sample_db sample_feed [sample_item] 0))"
    using refreshFeed_fetched[OF sample_feed_found pf(1)] pf(2) by auto
  have "truthy (it_link sample_item)"
       "\<not> has_entry sample_db (f_id sample_feed) (item_hash sample_env (f_id sample_feed) sample_item)"
       "list_ex (\<lambda>f. f_id f = f_id sample_feed) (feeds sample_db)"
    by (simp_all add: sample_item_def has_entry_def sample_db_def)
  then obtain e where
      "entries (fst (createEntryFromItem sample_env sample_db sample_feed sample_item))
         = entries sample_db @ [e]"
    using createEntryFromItem_new by blast
  then show ?thesis
    unfolding stored createEntries_Cons by (simp add: sample_db_def)
qed

text \<open>
  On the sample store: the first refresh stores the one article of the document, the
  second stores nothing.
\<close>

theorem refreshFeed_twice_no_new_entries_witness:
  "FeedModel_findById sample_db 1 = Some sample_feed
   \<and> net_get_feed sample_env (parseURL_request (f_feed_url sample_feed)) = Inr sample_output
   \<and> length (entries (fst (refreshFeed sample_env sample_db 1))) = 1
   \<and> (\<exists>res. snd (refreshFeed sample_env (fst (refreshFeed sample_env sample_db 1)) 1) = Inr res
           \<and> rr_success res
           \<and> rr_newEntries res = 0
           \<and> entries (fst (refreshFeed sample_env (fst (refreshFeed sample_env sample_db 1)) 1))
               = entries (fst (refreshFeed sample_env sample_db 1)))"
  using refreshFeed_twice_no_new_entries[OF sample_feed_found sample_fetch sample_fetch]
        sample_feed_found sample_fetch sample_first_refresh
  by auto

section \<open>The sweep over the due feeds\<close>



















section \<open>Subscribing\<close>

lemma fold_least_category_in:
  "fold (\<lambda>x m. if c_id x < c_id m then x else m) cs (c::Category) \<in> set (c # cs)"
proof (induction cs arbitrary: c)
  case Nil
  then show ?case by simp
next
  case (Cons x cs)
  show ?case
    using Cons.IH[of "if c_id x < c_id c then x else c"] by (auto split: if_splits)
qed

lemma getDefaultCategory_in:
  assumes "getDefaultCategory d userId = Some c"
  shows "c \<in> set (categories d)"
proof (cases "filter (\<lambda>c. c_user_id c = userId) (categories d)")
  case Nil
  then show ?thesis using assms by (simp add: getDefaultCategory_def)
next
  case (Cons x xs)
  then have "c \<in> set (x # xs)"
    using assms fold_least_category_in[of xs x] by (simp add: getDefaultCategory_def)
  then have "c \<in> set (filter (\<lambda>c. c_user_id c = userId) (categories d))"
    using Cons by simp
  then show ?thesis by simp
qed

lemma CategoryModel_findById_Some:
  "CategoryModel_findById d i = Some c \<Longrightarrow> c_id c = i \<and> c \<in> set (categories d)"
  by (auto simp: CategoryModel_findById_def find_Some_iff)

lemma resolve_category_exists:
  assumes "resolve_category d userId category_id = Inr c"
  shows "list_ex (\<lambda>x. c_id x = c) (categories d)"
proof (cases "category_id = None \<or> category_id = Some 0")
  case True
  then obtain dc where "getDefaultCategory d userId = Some dc" "c = c_id dc"
    using assms by (auto simp: resolve_category_def split: option.splits)
  then show ?thesis using getDefaultCategory_in by (auto simp: list_ex_iff)
next
  case False
  then obtain x where x: "category_id = Some x" by auto
  then obtain cat where "CategoryModel_findById d x = Some cat" "c = c_id cat"
    using assms False by (auto simp: resolve_category_def split: option.splits if_splits)
  then show ?thesis using CategoryModel_findById_Some by (auto simp: list_ex_iff)
qed

lemma feedUrlExists_None:
  "feedUrlExists d userId url None = list_ex (\<lambda>f. f_user_id f = userId \<and> f_feed_url f = url) (feeds d)"
  by (simp add: feedUrlExists_def)

lemma FeedModel_create_ok:
  assumes "\<not> feedUrlExists d userId (fi_feed_url input) None"
      and "list_ex (\<lambda>c. c_id c = fi_category_id input) (categories d)"
  shows "\<exists>row. FeedModel_create d now userId input
                 = (d\<lparr> feeds := feeds d @ [row], seq_feeds := f_id row \<rparr>, Inr (Some row))
           \<and> f_id row = next_rowid (seq_feeds d) (map f_id (feeds d))
           \<and> f_user_id row = userId"
proof -
  let ?rowid = "next_rowid (seq_feeds d) (map f_id (feeds d))"
  let ?row = "\<lparr> f_id = ?rowid, f_user_id = userId, f_category_id = fi_category_id input,
                    f_title = fi_title input, f_feed_url = fi_feed_url input,
                    f_site_url = or_default (fi_site_url input) [],
                    f_description = or_null (fi_description input),
                    f_favicon_url = or_null (fi_favicon_url input),
                    f_etag_header = None, f_last_modified_header = None,
                    f_last_fetched_at = None, f_next_fetch_at = Some now,
                    f_error_count = 0, f_error_message = None, f_disabled = False,
                    f_created_at = now, f_updated_at = now \<rparr>"
  have fresh: "\<forall>f \<in> set (feeds d). f_id f \<noteq> ?rowid"
    using next_rowid_fresh[of "seq_feeds d" "map f_id (feeds d)"] by force
  have "find (\<lambda>f. f_id f = ?rowid) (feeds d @ [?row]) = Some ?row"
    by (rule find_append_fresh) (use fresh in auto)
  then have "FeedModel_create d now userId input
                 = (d\<lparr> feeds := feeds d @ [?row], seq_feeds := f_id ?row \<rparr>, Inr (Some ?row))"
    using assms by (simp add: FeedModel_create_def feedUrlExists_None Let_def FeedModel_findById_def)
  then show ?thesis by (intro exI[of _ ?row]) simp
qed

lemma updateFetchResult_tables:
  "entries (updateFetchResult d now i ok options) = entries d"
  "enclosures (updateFetchResult d now i ok options) = enclosures d"
  "categories (updateFetchResult d now i ok options) = categories d"
  by (simp_all add: updateFetchResult_def Let_def)

text \<open>A subscription whose checks pass and whose fetch succeeds.\<close>

lemma subscribe_fetched:
  assumes url: "fc_feed_url input \<noteq> []" "isValidUrl env (fc_feed_url input)"
      and new: "\<not> feedUrlExists d userId (fc_feed_url input) None"
      and cat: "resolve_category d userId (fc_category_id input) = Inr c"
      and fetched: "fetchFeed env (fc_feed_url input) \<lparr> fo_etag = None, fo_lastModified = None \<rparr> = Inr doc"
  shows "\<exists>row res. f_id row = next_rowid (seq_feeds d) (map f_id (feeds d))
           \<and> snd (subscribe env d userId input) = Inr res
           \<and> sr_entriesCreated res
               = snd (createEntries env (d\<lparr> feeds := feeds d @ [row], seq_feeds := f_id row \<rparr>) row
                        (take 50 (pf_items doc)) 0)
           \<and> entries (fst (subscribe env d userId input))
               = entries (fst (createEntries env (d\<lparr> feeds := feeds d @ [row], seq_feeds := f_id row \<rparr>) row
                        (take 50 (pf_items doc)) 0))"
proof -
  let ?input = "subscribe_feed_row input c doc
                  (fetchFavicon env (or_default (pf_link doc) (fc_feed_url input)))"
  have "\<not> feedUrlExists d userId (fi_feed_url ?input) None"
       "list_ex (\<lambda>x. c_id x = fi_category_id ?input) (categories d)"
    using new resolve_category_exists[OF cat] by (simp_all add: subscribe_feed_row_def)
  then obtain row where row:
      "FeedModel_create d (clock_now env) userId ?input
         = (d\<lparr> feeds := feeds d @ [row], seq_feeds := f_id row \<rparr>, Inr (Some row))"
      "f_id row = next_rowid (seq_feeds d) (map f_id (feeds d))"
    using FeedModel_create_ok[of d userId ?input "clock_now env"] by blast
  show ?thesis
    using url new cat fetched row
    by (intro exI[of _ row])
       (simp add: subscribe_def Let_def updateFetchResult_tables split: prod.splits)
qed

text \<open>
  C9. When the fetch of the subscribed URL fails, \<^verbatim>\<open>subscribe\<close> throws and the store is
  what it was before the call: no feed row, no entry. When the checks before the fetch
  pass (so that the fetch is made), the error thrown is the validation error with the
  message of the failure.
\<close>

theorem subscribe_fetch_failure:
  assumes "fetchFeed env (fc_feed_url input) \<lparr> fo_etag = None, fo_lastModified = None \<rparr> = Inl err"
  shows "fst (subscribe env d userId input) = d
         \<and> isl (snd (subscribe env d userId input))
         \<and> (fc_feed_url input \<noteq> [] \<and> isValidUrl env (fc_feed_url input)
              \<and> \<not> feedUrlExists d userId (fc_feed_url input) None
              \<and> resolve_category d userId (fc_category_id input) = Inr c
            \<longrightarrow> subscribe env d userId input
                = (d, Inl (ValidationError (''Failed to fetch feed: '' @ message err))))"
  using assms by (simp add: subscribe_def split: sum.splits)

lemma sample_subscribe_checks:
  "fc_feed_url sample_subscribe \<noteq> []"
  "isValidUrl (sample_envs 2) (fc_feed_url sample_subscribe)"
  "isValidUrl (sample_env_items items) (fc_feed_url sample_subscribe)"
  "\<not> feedUrlExists sample_db 1 (fc_feed_url sample_subscribe) None"
  "resolve_category sample_db 1 (fc_category_id sample_subscribe) = Inr 1"
  by (simp_all add: sample_subscribe_def isValidUrl_def sample_envs_def sample_env_def
                    sample_env_items_def feedUrlExists_def sample_db_def sample_feed_def
                    resolve_category_def getDefaultCategory_def)

theorem subscribe_fetch_failure_witness:
  "fetchFeed (sample_envs 2) (fc_feed_url sample_subscribe)
       \<lparr> fo_etag = None, fo_lastModified = None \<rparr> = Inl (Error ''Status code 500'')
   \<and> fc_feed_url sample_subscribe \<noteq> [] \<and> isValidUrl (sample_envs 2) (fc_feed_url sample_subscribe)
   \<and> \<not> feedUrlExists sample_db 1 (fc_feed_url sample_subscribe) None
   \<and> resolve_category sample_db 1 (fc_category_id sample_subscribe) = Inr 1
   \<and> subscribe (sample_envs 2) sample_db 1 sample_subscribe
       = (sample_db, Inl (ValidationError ''Failed to fetch feed: Status code 500''))"
proof -
  have failed: "fetchFeed (sample_envs 2) (fc_feed_url sample_subscribe)
       \<lparr> fo_etag = None, fo_lastModified = None \<rparr> = Inl (Error ''Status code 500'')"
    by (simp add: fetchFeed_def sample_envs_def sample_env_def)
  show ?thesis
    using subscribe_fetch_failure[OF failed, of sample_db 1 1] failed sample_subscribe_checks
    by simp
qed

section \<open>The backfill of a new subscription\<close>

text \<open>
  C5, as the code has it. A subscription whose checks pass and whose fetch returns the
  document \<open>doc\<close> succeeds; the entries it appends are as many as it reports, at most 50,
  and their links are links of the first 50 items of \<open>doc\<close>, in the order of the items
  (no later item is stored). They are exactly 50 when
  the document has at least 50 items, each of the first 50 has a link, their fingerprints
  are pairwise different, and every stored entry belongs to a stored feed (the foreign
  key): items without a link and items whose fingerprint is already stored create nothing.
\<close>

theorem subscribe_backfill_bound:
  assumes url: "fc_feed_url input \<noteq> []" "isValidUrl env (fc_feed_url input)"
      and new: "\<not> feedUrlExists d userId (fc_feed_url input) None"
      and cat: "resolve_category d userId (fc_category_id input) = Inr c"
      and fetched: "fetchFeed env (fc_feed_url input) \<lparr> fo_etag = None, fo_lastModified = None \<rparr> = Inr doc"
  shows "\<exists>res es. snd (subscribe env d userId input) = Inr res
           \<and> entries (fst (subscribe env d userId input)) = entries d @ es
           \<and> sr_entriesCreated res = length es
           \<and> length es \<le> 50
           \<and> subseq (map (\<lambda>e. Some (e_url e)) es) (map it_link (take 50 (pf_items doc)))
           \<and> (50 \<le> length (pf_items doc)
                \<and> (\<forall>item \<in> set (take 50 (pf_items doc)). truthy (it_link item))
                \<and> distinct (map (item_hash env (next_rowid (seq_feeds d) (map f_id (feeds d))))
                               (take 50 (pf_items doc)))
                \<and> (\<forall>e \<in> set (entries d). list_ex (\<lambda>f. f_id f = e_feed_id e) (feeds d))
              \<longrightarrow> length es = 50)"
proof -
  let ?fid = "next_rowid (seq_feeds d) (map f_id (feeds d))"
  let ?items = "take 50 (pf_items doc)"
  obtain row res where row: "f_id row = ?fid"
      and res: "snd (subscribe env d userId input) = Inr res"
      and created: "sr_entriesCreated res
               = snd (createEntries env (d\<lparr> feeds := feeds d @ [row], seq_feeds := f_id row \<rparr>) row ?items 0)"
      and stored: "entries (fst (subscribe env d userId input))
               = entries (fst (createEntries env (d\<lparr> feeds := feeds d @ [row], seq_feeds := f_id row \<rparr>) row ?items 0))"
    using subscribe_fetched[OF url new cat fetched] by blast
  let ?d1 = "d\<lparr> feeds := feeds d @ [row], seq_feeds := f_id row \<rparr>"
  obtain es where es:
      "entries (fst (createEntries env ?d1 row ?items 0)) = entries ?d1 @ es"
      "snd (createEntries env ?d1 row ?items 0) = 0 + length es"
      "length es \<le> length ?items"
      "subseq (map (\<lambda>e. Some (e_url e)) es) (map it_link ?items)"
    using createEntries_count[of env ?d1 row ?items 0] by blast
  have exact: "length es = 50"
    if long: "50 \<le> length (pf_items doc)"
       and links: "\<forall>item \<in> set ?items. truthy (it_link item)"
       and hashes: "distinct (map (item_hash env ?fid) ?items)"
       and fk: "\<forall>e \<in> set (entries d). list_ex (\<lambda>f. f_id f = e_feed_id e) (feeds d)"
  proof -
    have fresh: "\<forall>f \<in> set (feeds d). f_id f \<noteq> ?fid"
      using next_rowid_fresh[of "seq_feeds d" "map f_id (feeds d)"] by force
    have none: "\<not> has_entry ?d1 (f_id row) h" for h
      using fk fresh row by (auto simp: has_entry_def list_ex_iff)
    have "snd (createEntries env ?d1 row ?items 0) = 0 + length ?items"
      by (rule createEntries_all_new) (use links none hashes row in auto)
    then show ?thesis using es(2) long by simp
  qed
  show ?thesis
    by (intro exI[of _ res] exI[of _ es]) (use res stored created es exact in auto)
qed

lemma sample_fetch_items:
  "\<exists>doc. fetchFeed (sample_env_items items) url options = Inr doc \<and> pf_items doc = items"
  by (simp add: fetchFeed_def sample_env_items_def sample_env_def sample_output_def)

lemma sample_articles_first: "take 50 sample_articles = map sample_article [0..<50]"
  by (simp add: sample_articles_def take_map)

lemma sample_article_hash_length:
  "length (item_hash (sample_env_items items) fid (sample_article i))
   = length (string_of_nat fid) + 26 + i"
  by (simp add: item_hash_def generateHash_def sample_article_def sample_item_def
                sample_env_items_def sample_env_def or_default_def Let_def
           del: string_of_nat.simps)

lemma sample_articles_distinct:
  "distinct (map (item_hash (sample_env_items items) fid) (take 50 sample_articles))"
proof -
  have "inj_on (\<lambda>i. item_hash (sample_env_items items) fid (sample_article i)) (set [0..<50])"
  proof (rule inj_onI)
    fix i j
    assume "item_hash (sample_env_items items) fid (sample_article i)
            = item_hash (sample_env_items items) fid (sample_article j)"
    then have "length (item_hash (sample_env_items items) fid (sample_article i))
            = length (item_hash (sample_env_items items) fid (sample_article j))"
      by simp
    then show "i = j" by (simp add: sample_article_hash_length)
  qed
  then show ?thesis
    by (simp add: sample_articles_first distinct_map comp_def)
qed

text \<open>
  A document of 200 articles with different links: the subscription creates exactly 50
  entries.
\<close>

theorem subscribe_backfill_bound_witness:
  "fc_feed_url sample_subscribe \<noteq> []
   \<and> isValidUrl (sample_env_items sample_articles) (fc_feed_url sample_subscribe)
   \<and> \<not> feedUrlExists sample_db 1 (fc_feed_url sample_subscribe) None
   \<and> resolve_category sample_db 1 (fc_category_id sample_subscribe) = Inr 1
   \<and> length sample_articles = 200
   \<and> map_sum message sr_entriesCreated
        (snd (subscribe (sample_env_items sample_articles) sample_db 1 sample_subscribe)) = Inr 50
   \<and> length (entries (fst (subscribe (sample_env_items sample_articles) sample_db 1 sample_subscribe)))
       = 50"
proof -
  let ?env = "sample_env_items sample_articles"
  obtain doc where doc:
      "fetchFeed ?env (fc_feed_url sample_subscribe) \<lparr> fo_etag = None, fo_lastModified = None \<rparr> = Inr doc"
      "pf_items doc = sample_articles"
    using sample_fetch_items by blast
  have long: "50 \<le> length (pf_items doc)" "length sample_articles = 200"
    by (simp_all add: doc(2) sample_articles_def)
  have links: "\<forall>item \<in> set (take 50 (pf_items doc)). truthy (it_link item)"
    by (auto simp: doc(2) sample_articles_first sample_article_def)
  have hashes: "distinct (map (item_hash ?env (next_rowid (seq_feeds sample_db) (map f_id (feeds sample_db))))
                               (take 50 (pf_items doc)))"
    unfolding doc(2) by (rule sample_articles_distinct)
  have fk: "\<forall>e \<in> set (entries sample_db). list_ex (\<lambda>f. f_id f = e_feed_id e) (feeds sample_db)"
    and empty: "entries sample_db = []"
    by (simp_all add: sample_db_def)
  obtain res es where
      "snd (subscribe ?env sample_db 1 sample_subscribe) = Inr res"
      "entries (fst (subscribe ?env sample_db 1 sample_subscribe)) = entries sample_db @ es"
      "sr_entriesCreated res = length es" "length es = 50"
    using subscribe_backfill_bound[OF sample_subscribe_checks(1,3,4,5) doc(1)] long links hashes fk
    by blast
  then show ?thesis
    using sample_subscribe_checks(1,4,5) sample_subscribe_checks(3)[of sample_articles] long(2)
    by (simp add: empty)
qed

lemma subscribe_without_links:
  assumes url: "fc_feed_url input \<noteq> []" "isValidUrl env (fc_feed_url input)"
      and new: "\<not> feedUrlExists d userId (fc_feed_url input) None"
      and cat: "resolve_category d userId (fc_category_id input) = Inr c"
      and fetched: "fetchFeed env (fc_feed_url input) \<lparr> fo_etag = None, fo_lastModified = None \<rparr> = Inr doc"
      and links: "\<forall>item \<in> set (pf_items doc). \<not> truthy (it_link item)"
  shows "map_sum message sr_entriesCreated (snd (subscribe env d userId input)) = Inr 0"
proof -
  obtain row res where res: "snd (subscribe env d userId input) = Inr res"
      and created: "sr_entriesCreated res
               = snd (createEntries env (d\<lparr> feeds := feeds d @ [row], seq_feeds := f_id row \<rparr>) row
                        (take 50 (pf_items doc)) 0)"
    using subscribe_fetched[OF url new cat fetched] by blast
  have "createEntries env (d\<lparr> feeds := feeds d @ [row], seq_feeds := f_id row \<rparr>) row
          (take 50 (pf_items doc)) 0
        = (d\<lparr> feeds := feeds d @ [row], seq_feeds := f_id row \<rparr>, 0)"
    by (rule createEntries_known) (use links in \<open>auto dest: in_set_takeD\<close>)
  then show ?thesis using res created by simp
qed

lemma createEntries_copies:
  assumes "truthy (it_link item)" "list_ex (\<lambda>f. f_id f = f_id feed) (feeds d)"
      and "\<not> has_entry d (f_id feed) (item_hash env (f_id feed) item)"
  shows "snd (createEntries env d feed (replicate (Suc n) item) 0) = 1"
proof -
  let ?r = "createEntryFromItem env d feed item"
  obtain e where e: "snd ?r = Inr (Some e)"
    using createEntryFromItem_new[OF assms(1,3,2)] by blast
  have stored: "has_entry (fst ?r) (f_id feed) (item_hash env (f_id feed) item)"
    by (rule createEntryFromItem_stores[OF assms(1,2)])
  have "createEntries env (fst ?r) feed (replicate n item) 1 = (fst ?r, 1)"
    by (rule createEntries_known) (use stored in auto)
  then show ?thesis
    using e by (simp add: createEntries_Cons del: createEntries.simps)
qed

lemma subscribe_copies:
  assumes url: "fc_feed_url input \<noteq> []" "isValidUrl env (fc_feed_url input)"
      and new: "\<not> feedUrlExists d userId (fc_feed_url input) None"
      and cat: "resolve_category d userId (fc_category_id input) = Inr c"
      and fetched: "fetchFeed env (fc_feed_url input) \<lparr> fo_etag = None, fo_lastModified = None \<rparr> = Inr doc"
      and copies: "pf_items doc = replicate 200 item" "truthy (it_link item)"
      and empty: "entries d = []"
  shows "map_sum message sr_entriesCreated (snd (subscribe env d userId input)) = Inr 1"
proof -
  obtain row res where res: "snd (subscribe env d userId input) = Inr res"
      and created: "sr_entriesCreated res
               = snd (createEntries env (d\<lparr> feeds := feeds d @ [row], seq_feeds := f_id row \<rparr>) row
                        (take 50 (pf_items doc)) 0)"
    using subscribe_fetched[OF url new cat fetched] by blast
  let ?d1 = "d\<lparr> feeds := feeds d @ [row], seq_feeds := f_id row \<rparr>"
  have first: "take 50 (pf_items doc) = replicate (Suc 49) item"
    by (simp add: copies(1))
  have "snd (createEntries env ?d1 row (replicate (Suc 49) item) 0) = 1"
    by (rule createEntries_copies) (use copies(2) empty in \<open>auto simp: has_entry_def\<close>)
  then show ?thesis using res created first by simp
qed

text \<open>
  C5 as stated fails: a document of 200 items without links creates no entry, and a
  document that holds one article 200 times creates one entry, not 50.
\<close>

theorem subscribe_backfill_counterexample:
  "length sample_without_links = 200
   \<and> map_sum message sr_entriesCreated
        (snd (subscribe (sample_env_items sample_without_links) sample_db 1 sample_subscribe)) = Inr 0
   \<and> length sample_copies = 200
   \<and> map_sum message sr_entriesCreated
        (snd (subscribe (sample_env_items sample_copies) sample_db 1 sample_subscribe)) = Inr 1"
proof -
  obtain doc1 where doc1:
      "fetchFeed (sample_env_items sample_without_links) (fc_feed_url sample_subscribe)
         \<lparr> fo_etag = None, fo_lastModified = None \<rparr> = Inr doc1"
      "pf_items doc1 = sample_without_links"
    using sample_fetch_items by blast
  obtain doc2 where doc2:
      "fetchFeed (sample_env_items sample_copies) (fc_feed_url sample_subscribe)
         \<lparr> fo_etag = None, fo_lastModified = None \<rparr> = Inr doc2"
      "pf_items doc2 = sample_copies"
    using sample_fetch_items by blast
  have "\<forall>item \<in> set (pf_items doc1). \<not> truthy (it_link item)"
    by (simp add: doc1(2) sample_without_links_def)
  then have 1: "map_sum message sr_entriesCreated
        (snd (subscribe (sample_env_items sample_without_links) sample_db 1 sample_subscribe)) = Inr 0"
    by (rule subscribe_without_links[OF sample_subscribe_checks(1,3,4,5) doc1(1)])
  have "pf_items doc2 = replicate 200 sample_item" "truthy (it_link sample_item)"
       "entries sample_db = []"
    by (simp_all add: doc2(2) sample_copies_def sample_item_def sample_db_def)
  then have 2: "map_sum message sr_entriesCreated
        (snd (subscribe (sample_env_items sample_copies) sample_db 1 sample_subscribe)) = Inr 1"
    by (rule subscribe_copies[OF sample_subscribe_checks(1,3,4,5) doc2(1)])
  show ?thesis
    using 1 2 by (simp add: sample_without_links_def sample_copies_def)
qed

end
